theory Spec2Isabelle
  imports Main "HOL-Library.AList"
begin

section \<open>Values read from YAML\<close>

text \<open>
  The launcher (\<^verbatim>\<open>experiment/run_experiment.py\<close>) works on documents parsed from YAML:
  Python values whose dynamic type the code inspects with \<^verbatim>\<open>isinstance\<close> and whose
  truth value it tests. A float is kept as a finite dyadic number, an infinity or a NaN,
  which is all its truth value needs. A dictionary is an association list, in insertion
  order as in Python, with string keys; a key is looked up with \<open>map_of\<close>.
\<close>

datatype pyfloat = Finite int int | Infinity bool | NaN

datatype yaml =
    YNone
  | YBool bool
  | YInt int
  | YFloat pyfloat
  | YStr string
  | YList "yaml list"
  | YDict "(string \<times> yaml) list"

type_synonym pydict = "(string \<times> yaml) list"

text \<open>Python's truth value of an object: \<^verbatim>\<open>if x\<close>, \<^verbatim>\<open>not x\<close>.\<close>

fun truthy :: "yaml \<Rightarrow> bool" where
  "truthy YNone = False"
| "truthy (YBool b) = b"
| "truthy (YInt i) = (i \<noteq> 0)"
| "truthy (YFloat (Finite m e)) = (m \<noteq> 0)"
| "truthy (YFloat (Infinity s)) = True"
| "truthy (YFloat NaN) = True"
| "truthy (YStr s) = (s \<noteq> [])"
| "truthy (YList xs) = (xs \<noteq> [])"
| "truthy (YDict kvs) = (kvs \<noteq> [])"

text \<open>\<^verbatim>\<open>isinstance(value, int)\<close>: \<^verbatim>\<open>bool\<close> is a subclass of \<^verbatim>\<open>int\<close> in Python.\<close>

fun isinstance_int :: "yaml \<Rightarrow> bool" where
  "isinstance_int (YInt i) = True"
| "isinstance_int (YBool b) = True"
| "isinstance_int v = False"

fun isinstance_str :: "yaml \<Rightarrow> bool" where
  "isinstance_str (YStr s) = True"
| "isinstance_str v = False"

fun isinstance_dict :: "yaml \<Rightarrow> bool" where
  "isinstance_dict (YDict kvs) = True"
| "isinstance_dict v = False"

text \<open>\<^verbatim>\<open>config.get(key, default)\<close> and \<^verbatim>\<open>key in config\<close>.\<close>

definition dict_get :: "pydict \<Rightarrow> string \<Rightarrow> yaml \<Rightarrow> yaml" where
  "dict_get d k dflt = (case map_of d k of None \<Rightarrow> dflt | Some v \<Rightarrow> v)"

definition has_key :: "pydict \<Rightarrow> string \<Rightarrow> bool" where
  "has_key d k = (map_of d k \<noteq> None)"

section \<open>Errors\<close>

text \<open>
  Every exception the launcher raises is a value. The generic \<^verbatim>\<open>Exception\<close> of the
  source carries a message; the messages are the constructors of \<open>message\<close>, with the
  values interpolated into them.
\<close>

datatype message =
    BenchmarkMoreThanOnce string
  | FuzzerCharset string
  | FuzzerDoesNotExist string
  | MustIncludeFuzzerField
  | InvalidEntry string
  | EnvMustBeDict
  | NameCharset
  | ExperimentNameInvalid string
  | NeedFuzzers
  | MustSetPostgresPassword

datatype error =
    ValidationError string
  | Exception message
  | KeyError string
  | TypeError
  | ValueError
  | AttributeError
  | AssertionError
  | FileNotFoundError string
  | NotImplementedError
  | External string

section \<open>Regular expressions\<close>

text \<open>
  The three compiled patterns of the source use literals, \<^verbatim>\<open>.\<close>, character classes,
  the anchors \<^verbatim>\<open>^\<close> and \<^verbatim>\<open>$\<close>, alternation, \<^verbatim>\<open>*\<close>, \<^verbatim>\<open>+\<close> and \<^verbatim>\<open>{0,n}\<close>.
  \<open>ends r (b, s)\<close> lists the positions a match of \<open>r\<close> can end at when it starts at the
  position with remaining input \<open>s\<close>; \<open>b\<close> says that this position is the start of the whole
  string. Without flags, \<^verbatim>\<open>.\<close> matches any character but a newline, \<^verbatim>\<open>^\<close> holds at
  the start of the string only, and \<^verbatim>\<open>$\<close> holds at the end of the string and just
  before a newline that ends it.
\<close>

datatype regex =
    Chr char
  | Dot
  | Cls "char list"
  | Bol
  | Eol
  | Seq regex regex
  | Alt regex regex
  | Star regex
  | Upto regex nat

definition newline :: char where
  "newline = CHR 0x0A"

function ends :: "regex \<Rightarrow> bool \<times> string \<Rightarrow> (bool \<times> string) list" where
  "ends (Chr c) (b, s) = (case s of [] \<Rightarrow> [] | x # xs \<Rightarrow> if x = c then [(False, xs)] else [])"
| "ends Dot (b, s) = (case s of [] \<Rightarrow> [] | x # xs \<Rightarrow> if x \<noteq> newline then [(False, xs)] else [])"
| "ends (Cls cs) (b, s) = (case s of [] \<Rightarrow> [] | x # xs \<Rightarrow> if x \<in> set cs then [(False, xs)] else [])"
| "ends Bol (b, s) = (if b then [(b, s)] else [])"
| "ends Eol (b, s) = (if s = [] \<or> s = [newline] then [(b, s)] else [])"
| "ends (Seq r1 r2) (b, s) = concat (map (ends r2) (ends r1 (b, s)))"
| "ends (Alt r1 r2) (b, s) = ends r1 (b, s) @ ends r2 (b, s)"
| "ends (Star r) (b, s) =
     (b, s) # concat (map (\<lambda>p. if length (snd p) < length s then ends (Star r) p else [])
                        (ends r (b, s)))"
| "ends (Upto r 0) (b, s) = [(b, s)]"
| "ends (Upto r (Suc n)) (b, s) = (b, s) # concat (map (ends (Upto r n)) (ends r (b, s)))"
  by pat_completeness auto
termination
  by (relation "measures [\<lambda>(r, p). size r,
                          \<lambda>(r, p). case r of Upto r' n \<Rightarrow> n | _ \<Rightarrow> 0,
                          \<lambda>(r, p). length (snd p)]") auto

text \<open>\<^verbatim>\<open>r+\<close> is \<^verbatim>\<open>rr*\<close>; a literal string is the sequence of its characters.\<close>

definition Plus :: "regex \<Rightarrow> regex" where
  "Plus r = Seq r (Star r)"

fun Lit :: "string \<Rightarrow> regex" where
  "Lit [] = Upto Dot 0"
| "Lit [c] = Chr c"
| "Lit (c # cs) = Seq (Chr c) (Lit cs)"

fun Alts :: "regex list \<Rightarrow> regex" where
  "Alts [] = Cls []"
| "Alts [r] = r"
| "Alts (r # rs) = Alt r (Alts rs)"

text \<open>
  \<^verbatim>\<open>re.match(pattern, string)\<close> looks for a match that starts at the beginning of the
  string and may end anywhere; its result is tested for truth only. On an argument that
  is not a string it raises \<^verbatim>\<open>TypeError\<close>.
\<close>

definition re_match :: "regex \<Rightarrow> string \<Rightarrow> bool" where
  "re_match r s = (ends r (True, s) \<noteq> [])"

fun py_re_match :: "regex \<Rightarrow> yaml \<Rightarrow> error + bool" where
  "py_re_match r (YStr s) = Inr (re_match r s)"
| "py_re_match r v = Inl TypeError"

definition lowercase_digits :: "char list" where
  "lowercase_digits = ''abcdefghijklmnopqrstuvwxyz0123456789''"

text \<open>\<^verbatim>\<open>FUZZER_NAME_REGEX = re.compile(r'^[a-z0-9_]+$')\<close>\<close>

definition FUZZER_NAME_REGEX :: regex where
  "FUZZER_NAME_REGEX = Seq Bol (Seq (Plus (Cls (lowercase_digits @ ''_''))) Eol)"

text \<open>\<^verbatim>\<open>EXPERIMENT_CONFIG_REGEX = re.compile(r'^[a-z0-9-]{0,30}$')\<close>\<close>

definition EXPERIMENT_CONFIG_REGEX :: regex where
  "EXPERIMENT_CONFIG_REGEX = Seq Bol (Seq (Upto (Cls (lowercase_digits @ ''-'')) 30) Eol)"

text \<open>
  \<^verbatim>\<open>FILTER_SOURCE_REGEX\<close>: one group of twelve alternatives, in the order of the source.
  \<^verbatim>\<open>\.\<close> and \<^verbatim>\<open>\#\<close> are literal characters; the dot of \<^verbatim>\<open>generated.mk\<close> is not
  escaped in the source and matches any character.
\<close>

definition filter_source_alternatives :: "regex list" where
  "filter_source_alternatives =
     [Seq Bol (Lit ''.git/''),
      Seq Bol (Lit ''.pytype/''),
      Seq Bol (Lit ''.venv/''),
      Seq Bol (Seq (Star Dot) (Seq (Lit ''.pyc'') Eol)),
      Seq Bol (Lit ''__pycache__/''),
      Seq (Star Dot) (Seq (Chr CHR ''~'') Eol),
      Seq (Star (Chr CHR ''#'')) (Seq (Chr CHR ''#'') Eol),
      Lit ''.pytest_cache/'',
      Seq (Star Dot) (Lit ''/test_data/''),
      Seq Bol (Lit ''third_party/oss-fuzz/build/''),
      Seq Bol (Seq (Lit ''docker/generated'') (Seq Dot (Seq (Lit ''mk'') Eol))),
      Seq Bol (Lit ''docs/'')]"

definition FILTER_SOURCE_REGEX :: regex where
  "FILTER_SOURCE_REGEX = Alts filter_source_alternatives"

section \<open>Strings, dictionaries and operators of Python\<close>

text \<open>An expression that may raise has a value of type \<open>error + 'a\<close>; \<open>bindE\<close> sequences two.\<close>

definition bindE :: "error + 'a \<Rightarrow> ('a \<Rightarrow> error + 'b) \<Rightarrow> error + 'b" where
  "bindE m f = (case m of Inl e \<Rightarrow> Inl e | Inr v \<Rightarrow> f v)"

text \<open>\<^verbatim>\<open>d[k]\<close> raises \<^verbatim>\<open>KeyError\<close> on a missing key.\<close>

definition subscript :: "pydict \<Rightarrow> string \<Rightarrow> error + yaml" where
  "subscript d k = (case map_of d k of None \<Rightarrow> Inl (KeyError k) | Some v \<Rightarrow> Inr v)"

text \<open>
  What \<^verbatim>\<open>str.lower\<close> does on ASCII text: the letters A to Z are replaced, every
  other character is kept.
\<close>

definition lower_char :: "char \<Rightarrow> char" where
  "lower_char c =
     (case map_of (zip ''ABCDEFGHIJKLMNOPQRSTUVWXYZ'' ''abcdefghijklmnopqrstuvwxyz'') c of
        None \<Rightarrow> c | Some l \<Rightarrow> l)"

fun is_prefix :: "string \<Rightarrow> string \<Rightarrow> bool" where
  "is_prefix [] s = True"
| "is_prefix (c # cs) [] = False"
| "is_prefix (c # cs) (x # xs) = (c = x \<and> is_prefix cs xs)"

fun str_startswith :: "yaml \<Rightarrow> string \<Rightarrow> error + bool" where
  "str_startswith (YStr s) pre = Inr (is_prefix pre s)"
| "str_startswith v pre = Inl AttributeError"

text \<open>
  \<^verbatim>\<open>x + y\<close> where one operand is known to be a string: the concatenation when the
  other is a string too, \<^verbatim>\<open>TypeError\<close> otherwise.
\<close>

fun str_add :: "yaml \<Rightarrow> yaml \<Rightarrow> error + yaml" where
  "str_add (YStr a) (YStr b) = Inr (YStr (a @ b))"
| "str_add u v = Inl TypeError"

text \<open>\<^verbatim>\<open>sep.join(xs)\<close> on a list of strings.\<close>

fun str_join :: "string \<Rightarrow> string list \<Rightarrow> string" where
  "str_join sep [] = []"
| "str_join sep [x] = x"
| "str_join sep (x # xs) = x @ sep @ str_join sep xs"

text \<open>\<^verbatim>\<open>os.path.join(a, b)\<close> on POSIX paths.\<close>

definition os_path_join :: "string \<Rightarrow> string \<Rightarrow> string" where
  "os_path_join a b =
     (if is_prefix ''/'' b then b
      else if a = [] \<or> last a = CHR ''/'' then a @ b
      else a @ ''/'' @ b)"

section \<open>The world outside the launcher\<close>

text \<open>
  The launcher calls collaborators that are not part of it: the YAML reader, git, the
  file system, the filestore copy tool, docker and gcloud. What they answer is a
  parameter of the model (\<open>extern\<close>); what the launcher does to them is recorded, in
  order, in the \<open>trace\<close> of the \<open>world\<close>. Whether a call raises is decided by \<open>fails\<close>,
  from the calls made so far and the call itself.
\<close>

text \<open>
  The calls, by the function of the source that makes them:
  \<^item> \<open>RecreateDirectory\<close>: \<^verbatim>\<open>filesystem.recreate_directory\<close>;
    \<open>WriteYaml\<close>: \<^verbatim>\<open>open\<close> with \<^verbatim>\<open>yaml.dump\<close>, and \<^verbatim>\<open>yaml_utils.write\<close>;
  \<^item> \<open>SetDefaultProject\<close>: \<^verbatim>\<open>gcloud.set_default_project\<close>;
  \<^item> \<open>CreateInstance\<close>: the process started by \<^verbatim>\<open>create_async\<close> on
    \<^verbatim>\<open>gcloud.create_instance\<close>; \<open>ProcessJoin\<close>: \<^verbatim>\<open>self.process.join()\<close>;
  \<^item> \<open>TarOpen\<close>, \<open>TarAdd\<close>: \<^verbatim>\<open>tarfile.open\<close> and \<^verbatim>\<open>tar.add\<close>;
    \<open>FilestoreCp\<close>, \<open>FilestoreRsync\<close>: \<^verbatim>\<open>filestore_utils.cp\<close> and \<^verbatim>\<open>rsync\<close>;
    \<open>OsRemove\<close>: \<^verbatim>\<open>os.remove\<close>;
  \<^item> \<open>CreateDirectory\<close>: \<^verbatim>\<open>filesystem.create_directory\<close>;
    \<open>Execute\<close>: \<^verbatim>\<open>new_process.execute\<close>;
  \<^item> \<open>RobustBeginSsh\<close>, \<open>Ssh\<close>: \<^verbatim>\<open>gcloud.robust_begin_gcloud_ssh\<close> and
    \<^verbatim>\<open>gcloud.ssh\<close>.
\<close>

datatype piece = S string | V yaml

datatype event =
    RecreateDirectory string
  | WriteYaml string yaml
  | SetDefaultProject yaml
  | CreateInstance string pydict
  | ProcessJoin
  | TarOpen string
  | TarAdd string
  | FilestoreCp string string
  | OsRemove string
  | FilestoreRsync string string
  | CreateDirectory string
  | Execute "piece list list"
  | RobustBeginSsh string yaml
  | Ssh string "piece list" yaml

text \<open>The messages of \<^verbatim>\<open>logs.error\<close> in the validation, with their arguments.\<close>

datatype log_msg =
    LegacyBucketKeys
  | DoesNotContain string
  | MustBeInt string yaml
  | MustBeLowercaseString string yaml
  | LocalPosixOnly string yaml
  | MustStartWithGs string yaml

text \<open>
  What the outside answers: the document \<^verbatim>\<open>yaml_utils.read\<close> parses from a file, the
  order in which a loop visits a Python set of strings, what \<^verbatim>\<open>str.lower\<close> of the
  Python library makes of a string (it knows the capitals of all of Unicode, so it is
  taken as it is and nothing is assumed of it), the output of \<^verbatim>\<open>git diff\<close> and of
  \<^verbatim>\<open>git rev-parse HEAD\<close>, the directories under the fuzzers directory, the
  instance name and the docker tag that \<^verbatim>\<open>experiment_utils\<close> derives,
  \<^verbatim>\<open>os.path.abspath\<close>, and the failures of calls.
\<close>

record extern =
  yaml_read :: "string \<Rightarrow> error + yaml"
  iteration :: "string set \<Rightarrow> string list"
  lower :: "string \<Rightarrow> string"
  git_diff_output :: "error + string"
  git_rev_parse_output :: "error + string"
  fuzzers_directories :: "error + string list"
  dispatcher_instance_name :: "yaml \<Rightarrow> error + string"
  base_docker_tag :: "yaml \<Rightarrow> error + string"
  abspath :: "string \<Rightarrow> string"
  fails :: "event list \<Rightarrow> event \<Rightarrow> error option"

text \<open>
  What the launcher changes: the environment variables of the process, the files of its
  working directory, the log and the trace of calls. An action takes the world and
  returns a value or an exception, and the world after it: an exception keeps what was
  done before it was raised.
\<close>

record world =
  environ :: "(string \<times> string) list"
  disk :: "string set"
  logs :: "log_msg list"
  trace :: "event list"

type_synonym 'a action = "world \<Rightarrow> (error + 'a) \<times> world"

definition bindA :: "'a action \<Rightarrow> ('a \<Rightarrow> 'b action) \<Rightarrow> 'b action" where
  "bindA m f w = (case m w of (Inl e, w') \<Rightarrow> (Inl e, w') | (Inr v, w') \<Rightarrow> f v w')"

definition thenA :: "unit action \<Rightarrow> 'b action \<Rightarrow> 'b action" where
  "thenA m k = bindA m (\<lambda>u. k)"

definition liftA :: "error + 'a \<Rightarrow> 'a action" where
  "liftA r w = (r, w)"

definition whenA :: "bool \<Rightarrow> unit action \<Rightarrow> unit action" where
  "whenA c m = (if c then m else liftA (Inr ()))"

text \<open>A call of a collaborator: it is recorded, then it returns or raises.\<close>

definition call :: "extern \<Rightarrow> event \<Rightarrow> unit action" where
  "call x ev w =
     (case fails x (trace w) ev of
        Some e \<Rightarrow> (Inl e, w\<lparr>trace := trace w @ [ev]\<rparr>)
      | None \<Rightarrow> (Inr (), w\<lparr>trace := trace w @ [ev]\<rparr>))"

text \<open>\<^verbatim>\<open>value.lower()\<close>: a value that is not a string has no such method.\<close>

fun str_lower :: "extern \<Rightarrow> yaml \<Rightarrow> error + yaml" where
  "str_lower x (YStr s) = Inr (YStr (lower x s))"
| "str_lower x v = Inl AttributeError"

text \<open>\<^verbatim>\<open>logs.error(...)\<close>\<close>

definition logs_error :: "log_msg \<Rightarrow> unit action" where
  "logs_error m w = (Inr (), w\<lparr>logs := logs w @ [m]\<rparr>)"

section \<open>Validating the experiment configuration\<close>

definition filestore_params :: "string set" where
  "filestore_params = {''experiment_filestore'', ''report_filestore''}"

definition cloud_config :: "string set" where
  "cloud_config = {''cloud_compute_zone''}"

definition string_params :: "string set" where
  "string_params = cloud_config \<union> filestore_params"

definition int_params :: "string set" where
  "int_params = {''trials'', ''max_total_time''}"

definition required_params :: "yaml \<Rightarrow> string set" where
  "required_params local_experiment =
     (if \<not> truthy local_experiment then (int_params \<union> filestore_params) \<union> cloud_config
      else int_params \<union> filestore_params)"

text \<open>
  The body of the loop \<^verbatim>\<open>for param in required_params\<close>: the message it logs, if any.
  Every branch that logs also sets \<^verbatim>\<open>valid = False\<close> and continues with the next
  parameter. The \<^verbatim>\<open>and\<close> and \<^verbatim>\<open>or\<close> of the source evaluate their right operand only
  when the left one does not decide.
\<close>

definition check_param :: "extern \<Rightarrow> yaml \<Rightarrow> pydict \<Rightarrow> string \<Rightarrow> error + log_msg option" where
  "check_param x local_experiment config param =
     (case map_of config param of
        None \<Rightarrow> Inr (Some (DoesNotContain param))
      | Some v \<Rightarrow>
          if param \<in> int_params \<and> \<not> isinstance_int v then Inr (Some (MustBeInt param v))
          else
            bindE (if param \<in> string_params
                   then (if \<not> isinstance_str v then Inr True
                         else bindE (str_lower x v) (\<lambda>l. Inr (v \<noteq> l)))
                   else Inr False)
              (\<lambda>not_lowercase_string.
                 if not_lowercase_string then Inr (Some (MustBeLowercaseString param v))
                 else if param \<notin> filestore_params then Inr None
                 else
                   bindE (if truthy local_experiment
                          then bindE (str_startswith v ''/'') (\<lambda>b. Inr (\<not> b))
                          else Inr False)
                     (\<lambda>not_posix.
                        if not_posix then Inr (Some (LocalPosixOnly param v))
                        else
                          bindE (if \<not> truthy local_experiment
                                 then bindE (str_startswith v ''gs://'') (\<lambda>b. Inr (\<not> b))
                                 else Inr False)
                            (\<lambda>not_gs.
                               if not_gs then Inr (Some (MustStartWithGs param v))
                               else Inr None))))"

fun for_params :: "extern \<Rightarrow> yaml \<Rightarrow> pydict \<Rightarrow> string list \<Rightarrow> bool \<Rightarrow> bool action" where
  "for_params x local_experiment config [] valid = liftA (Inr valid)"
| "for_params x local_experiment config (param # params) valid =
     (case check_param x local_experiment config param of
        Inl e \<Rightarrow> liftA (Inl e)
      | Inr None \<Rightarrow> for_params x local_experiment config params valid
      | Inr (Some m) \<Rightarrow>
          thenA (logs_error m) (for_params x local_experiment config params False))"

text \<open>
  \<^verbatim>\<open>read_and_validate_experiment_config(config_filename)\<close>. The document read must be
  a dictionary (\<^verbatim>\<open>config.get\<close>). \<^verbatim>\<open>required_params\<close> is a Python set, so the order of
  the loop is not fixed by the program: it is \<open>iteration x\<close> of that set.
\<close>

definition read_and_validate_experiment_config :: "extern \<Rightarrow> string \<Rightarrow> pydict action" where
  "read_and_validate_experiment_config x config_filename =
     bindA (liftA (yaml_read x config_filename))
       (\<lambda>document. case document of
          YDict config \<Rightarrow>
            (let local_experiment = dict_get config ''local_experiment'' (YBool False) in
             thenA (whenA (has_key config ''cloud_experiment_bucket''
                           \<or> has_key config ''cloud_web_bucket'')
                      (logs_error LegacyBucketKeys))
               (bindA (for_params x local_experiment config
                         (iteration x (required_params local_experiment)) True)
                  (\<lambda>valid. if \<not> valid then liftA (Inl (ValidationError config_filename))
                            else liftA (Inr config))))
        | _ \<Rightarrow> liftA (Inl AttributeError))"

section \<open>Validating names, benchmarks and fuzzer configurations\<close>

fun for_benchmarks :: "string list \<Rightarrow> string list \<Rightarrow> error + unit" where
  "for_benchmarks benchmarks [] = Inr ()"
| "for_benchmarks benchmarks (benchmark # rest) =
     (if count_list benchmarks benchmark > 1
      then Inl (Exception (BenchmarkMoreThanOnce benchmark))
      else for_benchmarks benchmarks rest)"

definition validate_benchmarks :: "extern \<Rightarrow> string list \<Rightarrow> error + unit" where
  "validate_benchmarks x benchmarks = for_benchmarks benchmarks (iteration x (set benchmarks))"

text \<open>\<^verbatim>\<open>get_directories(FUZZERS_DIR)\<close> lists the file system: \<open>fuzzers_directories x\<close>.\<close>

definition validate_fuzzer :: "extern \<Rightarrow> yaml \<Rightarrow> error + unit" where
  "validate_fuzzer x fuzzer =
     bindE (py_re_match FUZZER_NAME_REGEX fuzzer)
       (\<lambda>matched. case fuzzer of
          YStr f \<Rightarrow>
            if \<not> matched then Inl (Exception (FuzzerCharset f))
            else bindE (fuzzers_directories x)
                   (\<lambda>dirs. if f \<notin> set dirs then Inl (Exception (FuzzerDoesNotExist f))
                            else Inr ())
        | _ \<Rightarrow> Inl TypeError)"

definition allowed_fields :: "string list" where
  "allowed_fields = [''name'', ''env'', ''fuzzer'']"

definition validate_fuzzer_config :: "extern \<Rightarrow> pydict \<Rightarrow> error + unit" where
  "validate_fuzzer_config x fuzzer_config =
     (if \<not> has_key fuzzer_config ''fuzzer'' then Inl (Exception MustIncludeFuzzerField)
      else case find (\<lambda>key. key \<notin> set allowed_fields) (map fst fuzzer_config) of
        Some key \<Rightarrow> Inl (Exception (InvalidEntry key))
      | None \<Rightarrow>
          if (case map_of fuzzer_config ''env'' of
                None \<Rightarrow> False | Some env \<Rightarrow> \<not> isinstance_dict env)
          then Inl (Exception EnvMustBeDict)
          else
            bindE (let variant = dict_get fuzzer_config ''name'' YNone in
                   if truthy variant
                   then bindE (py_re_match FUZZER_NAME_REGEX variant)
                          (\<lambda>matched. if \<not> matched then Inl (Exception NameCharset)
                                      else Inr ())
                   else Inr ())
              (\<lambda>u. let fuzzer = dict_get fuzzer_config ''fuzzer'' YNone in
                    if truthy fuzzer then validate_fuzzer x fuzzer else Inr ()))"

definition validate_experiment_name :: "string \<Rightarrow> error + unit" where
  "validate_experiment_name experiment_name =
     (if \<not> re_match EXPERIMENT_CONFIG_REGEX experiment_name
      then Inl (Exception (ExperimentNameInvalid experiment_name))
      else Inr ())"

text \<open>\<^verbatim>\<open>get_full_fuzzer_name(fuzzer_config)\<close>\<close>

definition get_full_fuzzer_name :: "pydict \<Rightarrow> error + yaml" where
  "get_full_fuzzer_name fuzzer_config =
     (if \<not> has_key fuzzer_config ''name'' then subscript fuzzer_config ''fuzzer''
      else bindE (subscript fuzzer_config ''fuzzer'')
             (\<lambda>fuzzer. bindE (str_add fuzzer (YStr ''_''))
                (\<lambda>prefix. bindE (subscript fuzzer_config ''name'')
                   (\<lambda>variant. str_add prefix variant))))"

section \<open>The archive filter\<close>

text \<open>
  \<^verbatim>\<open>filter_file\<close> is the filter that \<^verbatim>\<open>copy_resources_to_bucket\<close> passes to
  \<^verbatim>\<open>tar.add\<close>: it gets the entry of a member and returns it to keep the member, or
  \<^verbatim>\<open>None\<close> to leave it out. Of the entry only the member's path is read.
\<close>

record tar_info =
  tarinfo_name :: string

definition filter_file :: "tar_info \<Rightarrow> tar_info option" where
  "filter_file ti = (if re_match FILTER_SOURCE_REGEX (tarinfo_name ti) then None else Some ti)"

section \<open>Writing the configuration files\<close>

definition CONFIG_DIR :: string where
  "CONFIG_DIR = ''config''"

text \<open>
  \<^verbatim>\<open>set_up_experiment_config_file(config)\<close>: the directory is recreated, then the file
  is opened, written by \<^verbatim>\<open>yaml.dump\<close> and closed, which is one call \<open>WriteYaml\<close>.
\<close>

definition set_up_experiment_config_file :: "extern \<Rightarrow> pydict \<Rightarrow> unit action" where
  "set_up_experiment_config_file x config =
     thenA (call x (RecreateDirectory CONFIG_DIR))
       (call x (WriteYaml (os_path_join CONFIG_DIR ''experiment.yaml'') (YDict config)))"

text \<open>
  \<^verbatim>\<open>check_no_local_changes()\<close> asserts that \<^verbatim>\<open>git diff\<close> prints nothing;
  \<^verbatim>\<open>get_git_hash()\<close> returns what \<^verbatim>\<open>git rev-parse HEAD\<close> prints, stripped and decoded
  (\<open>git_rev_parse_output x\<close> is that text).
\<close>

definition check_no_local_changes :: "extern \<Rightarrow> unit action" where
  "check_no_local_changes x =
     bindA (liftA (git_diff_output x))
       (\<lambda>out. if out \<noteq> [] then liftA (Inl AssertionError) else liftA (Inr ()))"

definition get_git_hash :: "extern \<Rightarrow> string action" where
  "get_git_hash x = liftA (git_rev_parse_output x)"

text \<open>\<^verbatim>\<open>os.path.join(fuzzer_config_dir, name)\<close> raises on a name that is not a string.\<close>

fun path_join_value :: "string \<Rightarrow> yaml \<Rightarrow> error + string" where
  "path_join_value dir (YStr s) = Inr (os_path_join dir s)"
| "path_join_value dir v = Inl TypeError"

fun for_fuzzer_configs :: "extern \<Rightarrow> string \<Rightarrow> pydict list \<Rightarrow> unit action" where
  "for_fuzzer_configs x fuzzer_config_dir [] = liftA (Inr ())"
| "for_fuzzer_configs x fuzzer_config_dir (fuzzer_config # rest) =
     thenA (liftA (validate_fuzzer_config x fuzzer_config))
       (bindA (liftA (bindE (get_full_fuzzer_name fuzzer_config)
                        (path_join_value fuzzer_config_dir)))
          (\<lambda>config_file_name.
             thenA (call x (WriteYaml config_file_name (YDict fuzzer_config)))
               (for_fuzzer_configs x fuzzer_config_dir rest)))"

definition set_up_fuzzer_config_files :: "extern \<Rightarrow> pydict list \<Rightarrow> unit action" where
  "set_up_fuzzer_config_files x fuzzer_configs =
     (if fuzzer_configs = [] then liftA (Inl (Exception NeedFuzzers))
      else
        (let fuzzer_config_dir = os_path_join CONFIG_DIR ''fuzzer-configs'' in
         thenA (call x (RecreateDirectory fuzzer_config_dir))
           (for_fuzzer_configs x fuzzer_config_dir fuzzer_configs)))"

section \<open>Copying the resources to the filestore\<close>

text \<open>
  \<^verbatim>\<open>os.environ[k] = v\<close> accepts strings only (\<^verbatim>\<open>TypeError\<close>), and no string that
  holds a NUL character (\<^verbatim>\<open>ValueError\<close>); \<^verbatim>\<open>os.getenv(k)\<close>.
\<close>

definition environ_set :: "string \<Rightarrow> yaml \<Rightarrow> unit action" where
  "environ_set k v w =
     (case v of
        YStr s \<Rightarrow>
          if CHR 0x00 \<in> set s then (Inl ValueError, w)
          else (Inr (), w\<lparr>environ := AList.update k s (environ w)\<rparr>)
      | _ \<Rightarrow> (Inl TypeError, w))"

definition os_getenv :: "string \<Rightarrow> string option action" where
  "os_getenv k w = (Inr (map_of (environ w) k), w)"

text \<open>
  Modelled from the spec: \<^verbatim>\<open>experiment_utils.get_experiment_filestore_path\<close> is not
  among the sources. The remote base path is derived from the experiment filestore and
  the experiment name, which \<^verbatim>\<open>copy_resources_to_bucket\<close> hands over in the environment
  variables \<^verbatim>\<open>EXPERIMENT_FILESTORE\<close> and \<^verbatim>\<open>EXPERIMENT\<close>; the layout of the store is
  \<^verbatim>\<open><experiment_filestore>/<experiment>/input/\<close>.
\<close>

definition get_experiment_filestore_path :: "string action" where
  "get_experiment_filestore_path w =
     (case map_of (environ w) ''EXPERIMENT_FILESTORE'' of
        None \<Rightarrow> (Inl (KeyError ''EXPERIMENT_FILESTORE''), w)
      | Some filestore \<Rightarrow>
          (case map_of (environ w) ''EXPERIMENT'' of
             None \<Rightarrow> (Inl (KeyError ''EXPERIMENT''), w)
           | Some experiment \<Rightarrow> (Inr (os_path_join filestore experiment), w)))"

text \<open>
  \<^verbatim>\<open>with tarfile.open(source_archive, 'w:gz') as tar: tar.add(...)\<close>: opening creates
  the file on disk; adding the source tree (each member passed through \<open>filter_file\<close> by
  the library) may raise after that. \<^verbatim>\<open>os.remove\<close> deletes a file that exists.
\<close>

definition create_file :: "string \<Rightarrow> unit action" where
  "create_file path w = (Inr (), w\<lparr>disk := insert path (disk w)\<rparr>)"

definition tar_source_tree :: "extern \<Rightarrow> string \<Rightarrow> unit action" where
  "tar_source_tree x source_archive =
     thenA (call x (TarOpen source_archive))
       (thenA (create_file source_archive) (call x (TarAdd source_archive)))"

definition os_remove :: "extern \<Rightarrow> string \<Rightarrow> unit action" where
  "os_remove x path =
     thenA (call x (OsRemove path))
       (\<lambda>w. if path \<in> disk w then (Inr (), w\<lparr>disk := disk w - {path}\<rparr>)
             else (Inl (FileNotFoundError path), w))"

definition copy_resources_to_bucket :: "extern \<Rightarrow> string \<Rightarrow> pydict \<Rightarrow> unit action" where
  "copy_resources_to_bucket x config_dir config =
     bindA (liftA (subscript config ''experiment_filestore''))
       (\<lambda>filestore. thenA (environ_set ''EXPERIMENT_FILESTORE'' filestore)
     (bindA (liftA (subscript config ''experiment''))
       (\<lambda>experiment. thenA (environ_set ''EXPERIMENT'' experiment)
     (bindA get_experiment_filestore_path
       (\<lambda>experiment_filestore_path.
          (let base_destination = os_path_join experiment_filestore_path ''input'';
               source_archive = ''src.tar.gz'' in
           thenA (tar_source_tree x source_archive)
          (thenA (call x (FilestoreCp source_archive (base_destination @ ''/'')))
          (thenA (os_remove x source_archive)
          (let destination = os_path_join base_destination ''config'' in
           call x (FilestoreRsync config_dir destination))))))))))"

section \<open>Dispatchers\<close>

text \<open>
  The three classes of the source share their fields. \<^verbatim>\<open>LocalDispatcher.__init__\<close> and
  \<^verbatim>\<open>BaseDispatcher.__init__\<close> (inherited by \<^verbatim>\<open>GoogleCloudDispatcher\<close>) read
  \<^verbatim>\<open>config['experiment']\<close> and ask \<^verbatim>\<open>experiment_utils\<close> for the instance name
  (\<open>dispatcher_instance_name x\<close>); \<^verbatim>\<open>self.process\<close> starts as \<^verbatim>\<open>None\<close>.
\<close>

datatype dispatcher_class = BaseDispatcher | LocalDispatcher | GoogleCloudDispatcher

record dispatcher =
  self_class :: dispatcher_class
  self_config :: pydict
  self_instance_name :: string
  self_process :: "unit option"

definition init_dispatcher :: "extern \<Rightarrow> dispatcher_class \<Rightarrow> pydict \<Rightarrow> error + dispatcher" where
  "init_dispatcher x cls config =
     bindE (subscript config ''experiment'')
       (\<lambda>experiment. bindE (dispatcher_instance_name x experiment)
          (\<lambda>instance_name.
             Inr \<lparr>self_class = cls, self_config = config,
                  self_instance_name = instance_name, self_process = None\<rparr>))"

definition get_dispatcher :: "extern \<Rightarrow> pydict \<Rightarrow> error + dispatcher" where
  "get_dispatcher x config =
     (if truthy (dict_get config ''local_experiment'' YNone)
      then init_dispatcher x LocalDispatcher config
      else init_dispatcher x GoogleCloudDispatcher config)"

text \<open>
  \<^verbatim>\<open>create_async\<close>: nothing for the local dispatcher; the cloud dispatcher starts a
  process that runs \<^verbatim>\<open>gcloud.create_instance\<close> and keeps it in \<^verbatim>\<open>self.process\<close>.
\<close>

definition create_async :: "extern \<Rightarrow> dispatcher \<Rightarrow> dispatcher action" where
  "create_async x d =
     (case self_class d of
        BaseDispatcher \<Rightarrow> liftA (Inl NotImplementedError)
      | LocalDispatcher \<Rightarrow> liftA (Inr d)
      | GoogleCloudDispatcher \<Rightarrow>
          thenA (call x (CreateInstance (self_instance_name d) (self_config d)))
            (liftA (Inr (d\<lparr>self_process := Some ()\<rparr>))))"

text \<open>
  A command line is a list of arguments; an argument built by \<^verbatim>\<open>str.format\<close> is the
  list of its literal parts (\<open>S\<close>) and of the values formatted into it (\<open>V\<close>).
\<close>

definition os_path_abspath :: "extern \<Rightarrow> yaml \<Rightarrow> error + string" where
  "os_path_abspath x v = (case v of YStr s \<Rightarrow> Inr (abspath x s) | _ \<Rightarrow> Inl TypeError)"

definition local_entry_command :: string where
  \<open>local_entry_command =
     ''rsync -r "${EXPERIMENT_FILESTORE}/${EXPERIMENT}/input/" ${WORK} && '' @
     ''mkdir ${WORK}/src && '' @
     ''tar -xvzf ${WORK}/src.tar.gz -C ${WORK}/src && '' @
     ''source "${WORK}/.venv/bin/activate" && '' @
     ''pip3 install -r "${WORK}/src/requirements.txt" && '' @
     ''PYTHONPATH=${WORK}/src python3 '' @
     ''${WORK}/src/experiment/dispatcher.py || '' @
     ''/bin/bash''\<close>

definition local_start :: "extern \<Rightarrow> dispatcher \<Rightarrow> unit action" where
  "local_start x d =
     bindA (liftA (bindE (subscript (self_config d) ''experiment_filestore'') (os_path_abspath x)))
       (\<lambda>experiment_filestore_path.
     thenA (call x (CreateDirectory experiment_filestore_path))
    (let sql_database_arg =
           [S ''SQL_DATABASE_URL=sqlite:///'',
            S (os_path_join experiment_filestore_path ''local.db'')] in
     bindA (liftA (bindE (subscript (self_config d) ''cloud_project'') (base_docker_tag x)))
       (\<lambda>base_docker_tag.
     let set_instance_name_arg = [S ''INSTANCE_NAME='', S (self_instance_name d)] in
     bindA (liftA (subscript (self_config d) ''experiment''))
       (\<lambda>experiment.
     let set_experiment_arg = [S ''EXPERIMENT='', V experiment] in
     bindA (liftA (subscript (self_config d) ''cloud_project''))
       (\<lambda>cloud_project.
     let set_cloud_project_arg = [S ''CLOUD_PROJECT='', V cloud_project] in
     bindA (liftA (subscript (self_config d) ''experiment_filestore''))
       (\<lambda>experiment_filestore.
     let shared_experiment_filestore_arg =
           [V experiment_filestore, S '':'', V experiment_filestore];
         set_experiment_filestore_arg = [S ''EXPERIMENT_FILESTORE='', V experiment_filestore] in
     bindA (liftA (subscript (self_config d) ''report_filestore''))
       (\<lambda>report_filestore.
     let shared_report_filestore_arg = [V report_filestore, S '':'', V report_filestore];
         set_report_filestore_arg = [S ''REPORT_FILESTORE='', V report_filestore];
         docker_image_url = [S base_docker_tag, S ''/dispatcher-image''];
         command =
           [[S ''docker''], [S ''run''], [S ''-ti''], [S ''--rm''],
            [S ''-v''], [S ''/var/run/docker.sock:/var/run/docker.sock''],
            [S ''-v''], shared_experiment_filestore_arg,
            [S ''-v''], shared_report_filestore_arg,
            [S ''-e''], set_instance_name_arg,
            [S ''-e''], set_experiment_arg,
            [S ''-e''], set_cloud_project_arg,
            [S ''-e''], sql_database_arg,
            [S ''-e''], set_experiment_filestore_arg,
            [S ''-e''], set_report_filestore_arg,
            [S ''-e''], [S ''LOCAL_EXPERIMENT=True''],
            [S ''--cap-add=SYS_PTRACE''], [S ''--cap-add=SYS_NICE''],
            [S ''--name=dispatcher-container''],
            docker_image_url,
            [S ''/bin/bash''], [S ''-c''], [S local_entry_command]] in
     call x (Execute command))))))))"

text \<open>\<^verbatim>\<open>os.environ[k]\<close>\<close>

definition environ_subscript :: "string \<Rightarrow> string action" where
  "environ_subscript k w =
     (case map_of (environ w) k of None \<Rightarrow> (Inl (KeyError k), w) | Some v \<Rightarrow> (Inr v, w))"

definition process_join :: "extern \<Rightarrow> dispatcher \<Rightarrow> unit action" where
  "process_join x d =
     (case self_process d of
        None \<Rightarrow> liftA (Inl AttributeError)
      | Some p \<Rightarrow> call x ProcessJoin)"

definition cloud_start :: "extern \<Rightarrow> dispatcher \<Rightarrow> unit action" where
  \<open>cloud_start x d =
     thenA (process_join x d)
    (bindA (liftA (subscript (self_config d) ''cloud_compute_zone''))
       (\<lambda>zone.
     thenA (call x (RobustBeginSsh (self_instance_name d) zone))
    (bindA (liftA (bindE (subscript (self_config d) ''cloud_project'') (base_docker_tag x)))
       (\<lambda>base_docker_tag.
     bindA (liftA (subscript (self_config d) ''cloud_sql_instance_connection_name''))
       (\<lambda>cloud_sql_instance_connection_name.
     bindA (environ_subscript ''POSTGRES_PASSWORD'')
       (\<lambda>postgres_password.
     bindA (liftA (subscript (self_config d) ''experiment''))
       (\<lambda>experiment.
     bindA (liftA (subscript (self_config d) ''cloud_project''))
       (\<lambda>cloud_project.
     bindA (liftA (subscript (self_config d) ''experiment_filestore''))
       (\<lambda>experiment_filestore.
     let command =
           [S ''echo 0 | sudo tee /proc/sys/kernel/yama/ptrace_scope && '',
            S ''docker run --rm '',
            S ''-e INSTANCE_NAME="'', S (self_instance_name d), S ''" '',
            S ''-e EXPERIMENT="'', V experiment, S ''" '',
            S ''-e CLOUD_PROJECT="'', V cloud_project, S ''" '',
            S ''-e EXPERIMENT_FILESTORE="'', V experiment_filestore, S ''" '',
            S ''-e POSTGRES_PASSWORD="'', S postgres_password, S ''" '',
            S ''-e CLOUD_SQL_INSTANCE_CONNECTION_NAME='',
            S ''"'', V cloud_sql_instance_connection_name, S ''" '',
            S ''--cap-add=SYS_PTRACE --cap-add=SYS_NICE '',
            S ''-v /var/run/docker.sock:/var/run/docker.sock '',
            S ''--name=dispatcher-container '',
            S base_docker_tag, S ''/dispatcher-image '',
            S ''/work/startup-dispatcher.sh''] in
     bindA (liftA (subscript (self_config d) ''cloud_compute_zone''))
       (\<lambda>zone'. call x (Ssh (self_instance_name d) command zone')))))))))))\<close>

definition dispatcher_start :: "extern \<Rightarrow> dispatcher \<Rightarrow> unit action" where
  "dispatcher_start x d =
     (case self_class d of
        BaseDispatcher \<Rightarrow> liftA (Inl NotImplementedError)
      | LocalDispatcher \<Rightarrow> local_start x d
      | GoogleCloudDispatcher \<Rightarrow> cloud_start x d)"

section \<open>Starting an experiment\<close>

text \<open>\<^verbatim>\<open>not manual_experiment\<close>: the variable is unset or empty.\<close>

definition falsy_env :: "string option \<Rightarrow> bool" where
  "falsy_env v = (case v of None \<Rightarrow> True | Some s \<Rightarrow> s = [])"

definition start_dispatcher :: "extern \<Rightarrow> pydict \<Rightarrow> string \<Rightarrow> unit action" where
  "start_dispatcher x config config_dir =
     bindA (liftA (get_dispatcher x config))
       (\<lambda>dispatcher.
     bindA (os_getenv ''MANUAL_EXPERIMENT'')
       (\<lambda>manual_experiment.
     bindA (if falsy_env manual_experiment then create_async x dispatcher
            else liftA (Inr dispatcher))
       (\<lambda>dispatcher'.
     thenA (copy_resources_to_bucket x config_dir config)
       (whenA (falsy_env manual_experiment) (dispatcher_start x dispatcher')))))"

text \<open>
  The block of \<^verbatim>\<open>start_experiment\<close> under the comment "Make sure we can connect to
  database": for an experiment that is not local, \<^verbatim>\<open>POSTGRES_PASSWORD\<close> must be set,
  and the default project of gcloud is set to \<^verbatim>\<open>config['cloud_project']\<close>.
\<close>

definition switch_project :: "extern \<Rightarrow> pydict \<Rightarrow> unit action" where
  "switch_project x config =
     (let local_experiment = dict_get config ''local_experiment'' (YBool False) in
      whenA (\<not> truthy local_experiment)
        (bindA (os_getenv ''POSTGRES_PASSWORD'')
           (\<lambda>password.
              if password = None then liftA (Inl (Exception MustSetPostgresPassword))
              else bindA (liftA (subscript config ''cloud_project''))
                     (\<lambda>project. call x (SetDefaultProject project)))))"

definition start_experiment ::
  "extern \<Rightarrow> string \<Rightarrow> string \<Rightarrow> string list \<Rightarrow> pydict list \<Rightarrow> unit action" where
  "start_experiment x experiment_name config_filename benchmarks fuzzer_configs =
     thenA (check_no_local_changes x)
    (thenA (liftA (validate_experiment_name experiment_name))
    (thenA (liftA (validate_benchmarks x benchmarks))
    (bindA (read_and_validate_experiment_config x config_filename)
       (\<lambda>config0.
     let config1 = AList.update ''benchmarks'' (YStr (str_join '','' benchmarks)) config0;
         config2 = AList.update ''experiment'' (YStr experiment_name) config1 in
     bindA (get_git_hash x)
       (\<lambda>hash.
     let config = AList.update ''git_hash'' (YStr hash) config2 in
     thenA (set_up_experiment_config_file x config)
    (thenA (set_up_fuzzer_config_files x fuzzer_configs)
    (thenA (switch_project x config)
       (start_dispatcher x config CONFIG_DIR))))))))"

section \<open>The rules of the specification\<close>

text \<open>
  The specification names four rules for a required parameter: the key is missing, the
  value of an integer parameter is not an integer, the value of a string parameter is
  not a string or not lowercase, and the value of a filestore parameter does not start
  with the scheme of the deployment mode (\<^verbatim>\<open>/\<close> locally, \<^verbatim>\<open>gs://\<close> in the cloud).
  A string is lowercase when \<^verbatim>\<open>str.lower\<close> (\<open>lower x\<close>) leaves it as it is.
  \<open>violated_rules\<close> lists the rules a parameter violates, in that order, and \<open>report\<close>
  is the message the launcher has for a rule.
\<close>

datatype rule = Missing | NotInt | NotLowercaseString | WrongScheme

definition is_lowercase_string :: "extern \<Rightarrow> yaml \<Rightarrow> bool" where
  "is_lowercase_string x v = (case v of YStr s \<Rightarrow> s = lower x s | _ \<Rightarrow> False)"

definition has_scheme :: "yaml \<Rightarrow> yaml \<Rightarrow> bool" where
  "has_scheme local_experiment v =
     (case v of
        YStr s \<Rightarrow> is_prefix (if truthy local_experiment then ''/'' else ''gs://'') s
      | _ \<Rightarrow> False)"

fun violates :: "extern \<Rightarrow> yaml \<Rightarrow> pydict \<Rightarrow> string \<Rightarrow> rule \<Rightarrow> bool" where
  "violates x le config p Missing = (map_of config p = None)"
| "violates x le config p NotInt =
     (p \<in> int_params
      \<and> (case map_of config p of None \<Rightarrow> False | Some v \<Rightarrow> \<not> isinstance_int v))"
| "violates x le config p NotLowercaseString =
     (p \<in> string_params
      \<and> (case map_of config p of None \<Rightarrow> False | Some v \<Rightarrow> \<not> is_lowercase_string x v))"
| "violates x le config p WrongScheme =
     (p \<in> filestore_params
      \<and> (case map_of config p of None \<Rightarrow> False | Some v \<Rightarrow> \<not> has_scheme le v))"

definition violated_rules :: "extern \<Rightarrow> yaml \<Rightarrow> pydict \<Rightarrow> string \<Rightarrow> rule list" where
  "violated_rules x le config p =
     filter (violates x le config p) [Missing, NotInt, NotLowercaseString, WrongScheme]"

fun report :: "yaml \<Rightarrow> pydict \<Rightarrow> string \<Rightarrow> rule \<Rightarrow> log_msg" where
  "report le config p Missing = DoesNotContain p"
| "report le config p NotInt = MustBeInt p (dict_get config p YNone)"
| "report le config p NotLowercaseString = MustBeLowercaseString p (dict_get config p YNone)"
| "report le config p WrongScheme =
     (if truthy le then LocalPosixOnly p (dict_get config p YNone)
      else MustStartWithGs p (dict_get config p YNone))"

text \<open>One message for every rule a parameter violates, and the first of them only.\<close>

definition every_report :: "extern \<Rightarrow> yaml \<Rightarrow> pydict \<Rightarrow> string \<Rightarrow> log_msg list" where
  "every_report x le config p = map (report le config p) (violated_rules x le config p)"

definition first_report :: "extern \<Rightarrow> yaml \<Rightarrow> pydict \<Rightarrow> string \<Rightarrow> log_msg list" where
  "first_report x le config p = take 1 (every_report x le config p)"

definition legacy_report :: "pydict \<Rightarrow> log_msg list" where
  "legacy_report config =
     (if has_key config ''cloud_experiment_bucket'' \<or> has_key config ''cloud_web_bucket''
      then [LegacyBucketKeys] else [])"

text \<open>The loop over a Python set visits every element of the set once.\<close>

definition enumerates :: "extern \<Rightarrow> string set \<Rightarrow> bool" where
  "enumerates x A = (set (iteration x A) = A \<and> distinct (iteration x A))"

text \<open>The directories that the denylist names by a leading path.\<close>

definition denied_directories :: "string list" where
  "denied_directories =
     [''.git/'', ''.pytype/'', ''.venv/'', ''__pycache__/'', ''.pytest_cache/'',
      ''third_party/oss-fuzz/build/'', ''docs/'']"

section \<open>A laboratory\<close>

text \<open>
  Concrete configurations and a concrete outside world, on which the launcher is run in
  the examples below: every collaborator succeeds, the fuzzers \<^verbatim>\<open>afl\<close> and
  \<^verbatim>\<open>libfuzzer\<close> exist, a set is visited in the order of \<open>lab_order\<close>, and all text is ASCII.
\<close>

definition cloud_config_example :: pydict where
  "cloud_config_example =
     [(''trials'', YInt 20),
      (''max_total_time'', YInt 82800),
      (''experiment_filestore'', YStr ''gs://fuzzbench-data''),
      (''report_filestore'', YStr ''gs://fuzzbench-reports''),
      (''cloud_compute_zone'', YStr ''us-central1-a'')]"

definition legacy_config_example :: pydict where
  "legacy_config_example = cloud_config_example @ [(''cloud_experiment_bucket'', YStr ''gs://old'')]"

definition local_config_example :: pydict where
  "local_config_example =
     [(''trials'', YInt 5),
      (''max_total_time'', YInt 3600),
      (''experiment_filestore'', YStr ''/tmp/experiment-data''),
      (''report_filestore'', YStr ''/tmp/report-data''),
      (''local_experiment'', YBool True)]"

definition mixed_config_example :: pydict where
  "mixed_config_example =
     [(''trials'', YInt 5),
      (''max_total_time'', YInt 3600),
      (''experiment_filestore'', YStr ''Tmp''),
      (''report_filestore'', YStr ''gs://reports''),
      (''local_experiment'', YBool True)]"

definition full_config_example :: pydict where
  "full_config_example = local_config_example @ [(''cloud_project'', YStr ''fuzzbench'')]"

definition lab_files :: "(string \<times> yaml) list" where
  "lab_files =
     [(''cloud.yaml'', YDict cloud_config_example),
      (''legacy.yaml'', YDict legacy_config_example),
      (''local.yaml'', YDict local_config_example),
      (''mixed.yaml'', YDict mixed_config_example),
      (''full.yaml'', YDict full_config_example)]"

definition lab_order :: "string list" where
  "lab_order =
     [''trials'', ''max_total_time'', ''experiment_filestore'', ''report_filestore'',
      ''cloud_compute_zone'', ''libpng'', ''zlib'']"

definition lab :: extern where
  "lab =
     \<lparr>yaml_read = (\<lambda>f. case map_of lab_files f of
                           None \<Rightarrow> Inl (FileNotFoundError f) | Some y \<Rightarrow> Inr y),
      iteration = (\<lambda>A. filter (\<lambda>p. p \<in> A) lab_order),
      lower = map lower_char,
      git_diff_output = Inr [],
      git_rev_parse_output = Inr ''0a1b2c3d'',
      fuzzers_directories = Inr [''afl'', ''libfuzzer''],
      dispatcher_instance_name =
        (\<lambda>v. case v of YStr s \<Rightarrow> Inr (''d-'' @ s) | _ \<Rightarrow> Inl TypeError),
      base_docker_tag =
        (\<lambda>v. case v of YStr s \<Rightarrow> Inr (''gcr.io/'' @ s) | _ \<Rightarrow> Inl TypeError),
      abspath = (\<lambda>p. p),
      fails = (\<lambda>t ev. None)\<rparr>"

definition initial_world :: world where
  "initial_world = \<lparr>environ = [], disk = {}, logs = [], trace = []\<rparr>"

definition stamped_config_example :: pydict where
  "stamped_config_example =
     full_config_example
     @ [(''benchmarks'', YStr ''libpng,zlib''), (''experiment'', YStr ''exp1''),
        (''git_hash'', YStr ''0a1b2c3d'')]"

text \<open>The same laboratory, but the upload of the archive raises.\<close>

definition upload_fails :: "event list \<Rightarrow> event \<Rightarrow> error option" where
  "upload_fails t ev = (case ev of FilestoreCp a b \<Rightarrow> Some (External ''cp'') | _ \<Rightarrow> None)"

definition lab_without_upload :: extern where
  "lab_without_upload = lab\<lparr>fails := upload_fails\<rparr>"

section \<open>Phases of a launch\<close>

text \<open>
  The calls that write a configuration file, the calls of \<^verbatim>\<open>copy_resources_to_bucket\<close>
  (the bundling), and the calls of a dispatcher's \<^verbatim>\<open>start\<close>.
\<close>

fun is_config_write :: "event \<Rightarrow> bool" where
  "is_config_write (WriteYaml path document) = True"
| "is_config_write ev = False"

fun is_bundling :: "event \<Rightarrow> bool" where
  "is_bundling (TarOpen a) = True"
| "is_bundling (TarAdd a) = True"
| "is_bundling (FilestoreCp a b) = True"
| "is_bundling (OsRemove a) = True"
| "is_bundling (FilestoreRsync a b) = True"
| "is_bundling ev = False"

fun is_start :: "event \<Rightarrow> bool" where
  "is_start (CreateDirectory a) = True"
| "is_start (Execute c) = True"
| "is_start ProcessJoin = True"
| "is_start (RobustBeginSsh a z) = True"
| "is_start (Ssh a c z) = True"
| "is_start ev = False"

text \<open>The five calls of a bundling that runs to its end.\<close>

definition bundling_calls :: "string \<Rightarrow> string \<Rightarrow> event list" where
  "bundling_calls config_dir base_destination =
     [TarOpen ''src.tar.gz'', TarAdd ''src.tar.gz'',
      FilestoreCp ''src.tar.gz'' (base_destination @ ''/''),
      OsRemove ''src.tar.gz'',
      FilestoreRsync config_dir (os_path_join base_destination ''config'')]"

text \<open>A call that belongs neither to the bundling nor to a dispatcher's start.\<close>

definition quiet :: "event \<Rightarrow> bool" where
  "quiet ev = (\<not> is_bundling ev \<and> \<not> is_start ev)"

text \<open>
  The world after a launch of the experiment \<^verbatim>\<open>exp1\<close> in the laboratory, from the
  configuration \<^verbatim>\<open>full.yaml\<close>, with the benchmarks \<^verbatim>\<open>libpng\<close> and \<^verbatim>\<open>zlib\<close> and the
  fuzzer \<^verbatim>\<open>afl\<close>.
\<close>

definition launched_world :: world where
  "launched_world =
     \<lparr>environ = [(''EXPERIMENT_FILESTORE'', ''/tmp/experiment-data''), (''EXPERIMENT'', ''exp1'')],
      disk = {}, logs = [],
      trace =
        [RecreateDirectory ''config'',
         WriteYaml ''config/experiment.yaml'' (YDict stamped_config_example),
         RecreateDirectory ''config/fuzzer-configs'',
         WriteYaml ''config/fuzzer-configs/afl'' (YDict [(''fuzzer'', YStr ''afl'')]),
         TarOpen ''src.tar.gz'', TarAdd ''src.tar.gz'',
         FilestoreCp ''src.tar.gz'' ''/tmp/experiment-data/exp1/input/'',
         OsRemove ''src.tar.gz'',
         FilestoreRsync ''config'' ''/tmp/experiment-data/exp1/input/config'',
         CreateDirectory ''/tmp/experiment-data'',
         Execute
           [[S ''docker''], [S ''run''], [S ''-ti''], [S ''--rm''],
            [S ''-v''], [S ''/var/run/docker.sock:/var/run/docker.sock''],
            [S ''-v''],
            [V (YStr ''/tmp/experiment-data''), S '':'', V (YStr ''/tmp/experiment-data'')],
            [S ''-v''],
            [V (YStr ''/tmp/report-data''), S '':'', V (YStr ''/tmp/report-data'')],
            [S ''-e''], [S ''INSTANCE_NAME='', S ''d-exp1''],
            [S ''-e''], [S ''EXPERIMENT='', V (YStr ''exp1'')],
            [S ''-e''], [S ''CLOUD_PROJECT='', V (YStr ''fuzzbench'')],
            [S ''-e''],
            [S ''SQL_DATABASE_URL=sqlite:///'', S ''/tmp/experiment-data/local.db''],
            [S ''-e''], [S ''EXPERIMENT_FILESTORE='', V (YStr ''/tmp/experiment-data'')],
            [S ''-e''], [S ''REPORT_FILESTORE='', V (YStr ''/tmp/report-data'')],
            [S ''-e''], [S ''LOCAL_EXPERIMENT=True''],
            [S ''--cap-add=SYS_PTRACE''], [S ''--cap-add=SYS_NICE''],
            [S ''--name=dispatcher-container''],
            [S ''gcr.io/fuzzbench'', S ''/dispatcher-image''],
            [S ''/bin/bash''], [S ''-c''], [S local_entry_command]]]\<rparr>"

text \<open>
  The calls of a list have returned: none of them raised, each one made after the ones
  before it.
\<close>

fun returned :: "extern \<Rightarrow> event list \<Rightarrow> event list \<Rightarrow> bool" where
  "returned x before [] = True"
| "returned x before (ev # later) =
     (fails x before ev = None \<and> returned x (before @ [ev]) later)"

section \<open>Properties\<close>

subsection \<open>Facts about the regular expressions\<close>

lemma is_prefix_append: "is_prefix l s \<Longrightarrow> \<exists>rest. s = l @ rest"
  by (induction l s rule: is_prefix.induct) auto

lemma ends_Lit: "ends (Lit (c # cs)) (b, (c # cs) @ rest) = [(False, rest)]"
  by (induction cs arbitrary: c b rest) auto

lemma ends_Bol_Lit: "ends (Seq Bol (Lit (c # cs))) (True, (c # cs) @ rest) = [(False, rest)]"
  using ends_Lit [of c cs True rest] by simp

lemma ends_Alts: "r \<in> set rs \<Longrightarrow> ends r st \<noteq> [] \<Longrightarrow> ends (Alts rs) st \<noteq> []"
proof (induction rs rule: Alts.induct)
  case 1
  then show ?case by simp
next
  case (2 r')
  then show ?case by simp
next
  case (3 r' v va)
  then show ?case by (cases st) auto
qed

lemma under_denied_directory:
  assumes "d \<in> set denied_directories" and "is_prefix d p"
  shows "re_match FILTER_SOURCE_REGEX p"
proof -
  obtain rest where p: "p = d @ rest"
    using is_prefix_append [OF assms(2)] by blast
  obtain c cs where d: "d = c # cs"
    using assms(1) by (auto simp: denied_directories_def)
  have "Seq Bol (Lit d) \<in> set filter_source_alternatives \<or> d = ''.pytest_cache/''"
    using assms(1) unfolding denied_directories_def filter_source_alternatives_def
    by (auto simp del: Lit.simps)
  then show ?thesis
  proof
    assume m: "Seq Bol (Lit d) \<in> set filter_source_alternatives"
    have "ends (Seq Bol (Lit d)) (True, p) \<noteq> []"
      unfolding p d using ends_Bol_Lit [of c cs rest] by simp
    from ends_Alts [OF m this] show ?thesis
      unfolding re_match_def FILTER_SOURCE_REGEX_def .
  next
    assume e: "d = ''.pytest_cache/''"
    have m: "Lit d \<in> set filter_source_alternatives"
      unfolding e filter_source_alternatives_def by (simp del: Lit.simps)
    have "ends (Lit d) (True, p) \<noteq> []"
      unfolding p d using ends_Lit [of c cs True rest] by simp
    from ends_Alts [OF m this] show ?thesis
      unfolding re_match_def FILTER_SOURCE_REGEX_def .
  qed
qed

lemma afl_is_a_fuzzer: "validate_fuzzer lab (YStr ''afl'') = Inr ()"
  by (simp add: validate_fuzzer_def lab_def re_match_def FUZZER_NAME_REGEX_def Plus_def
      lowercase_digits_def newline_def bindE_def)

subsection \<open>Facts about the validation of the experiment configuration\<close>

lemma int_not_string: "p \<in> int_params \<Longrightarrow> p \<notin> string_params \<and> p \<notin> filestore_params"
  by (auto simp: int_params_def string_params_def filestore_params_def cloud_config_def)

lemma filestore_is_string: "p \<in> filestore_params \<Longrightarrow> p \<in> string_params"
  by (simp add: string_params_def)

lemma filestore_is_required: "p \<in> filestore_params \<Longrightarrow> p \<in> required_params le"
  by (simp add: required_params_def)

text \<open>The body of the loop never raises: it logs the first report of the parameter.\<close>

lemma check_param_first_report:
  "check_param x le config p =
     Inr (case first_report x le config p of [] \<Rightarrow> None | m # ms \<Rightarrow> Some m)"
proof (cases "map_of config p")
  case None
  then show ?thesis
    by (simp add: check_param_def first_report_def every_report_def violated_rules_def)
next
  case (Some v)
  show ?thesis
  proof (cases v)
    case (YStr s)
    with Some show ?thesis
      using int_not_string [of p] filestore_is_string [of p]
      by (auto simp: check_param_def first_report_def every_report_def violated_rules_def
          bindE_def is_lowercase_string_def has_scheme_def dict_get_def)
  qed (use Some int_not_string [of p] filestore_is_string [of p] in
      \<open>auto simp: check_param_def first_report_def every_report_def violated_rules_def
          bindE_def is_lowercase_string_def has_scheme_def dict_get_def\<close>)
qed

lemma first_report_empty: "first_report x le config p = [] \<longleftrightarrow> violated_rules x le config p = []"
  by (cases "violated_rules x le config p") (simp_all add: first_report_def every_report_def)

lemma first_report_hd:
  "violated_rules x le config p \<noteq> [] \<Longrightarrow>
     first_report x le config p = [report le config p (hd (violated_rules x le config p))]"
  by (cases "violated_rules x le config p") (simp_all add: first_report_def every_report_def)

lemma for_params_result:
  "for_params x le config ps valid w =
     (Inr (valid \<and> (\<forall>p \<in> set ps. violated_rules x le config p = [])),
      w\<lparr>logs := logs w @ concat (map (first_report x le config) ps)\<rparr>)"
proof (induction ps arbitrary: valid w)
  case Nil
  then show ?case by (simp add: liftA_def)
next
  case (Cons p ps)
  show ?case
  proof (cases "first_report x le config p")
    case Nil
    then show ?thesis
      using Cons first_report_empty [of x le config p]
      by (simp add: check_param_first_report)
  next
    case (Cons m ms)
    then have ms: "ms = []"
      by (cases "every_report x le config p") (simp_all add: first_report_def)
    show ?thesis
      using Cons Cons.IH first_report_empty [of x le config p] ms
      by (simp add: check_param_first_report thenA_def bindA_def logs_error_def)
  qed
qed

lemma read_and_validate_result:
  assumes "yaml_read x fn = Inr (YDict config)"
    and "le = dict_get config ''local_experiment'' (YBool False)"
  shows "read_and_validate_experiment_config x fn w =
           (if \<exists>p \<in> set (iteration x (required_params le)). violated_rules x le config p \<noteq> []
            then Inl (ValidationError fn) else Inr config,
            w\<lparr>logs := logs w @ legacy_report config
                       @ concat (map (first_report x le config)
                                   (iteration x (required_params le)))\<rparr>)"
  using assms
  by (simp add: read_and_validate_experiment_config_def bindA_def thenA_def liftA_def
      whenA_def logs_error_def legacy_report_def for_params_result Let_def)

lemma count_list_distinct: "distinct xs \<Longrightarrow> x \<in> set xs \<Longrightarrow> count_list xs x = 1"
  by (induction xs) auto

lemma lab_enumerates_local: "enumerates lab (required_params (YBool True))"
  by (auto simp: enumerates_def lab_def lab_order_def required_params_def int_params_def
      filestore_params_def)

lemma mixed_run:
  "read_and_validate_experiment_config lab ''mixed.yaml'' initial_world
     = (Inl (ValidationError ''mixed.yaml''),
        initial_world\<lparr>logs := [MustBeLowercaseString ''experiment_filestore'' (YStr ''Tmp''),
                                LocalPosixOnly ''report_filestore'' (YStr ''gs://reports'')]\<rparr>)"
  by (simp add: read_and_validate_experiment_config_def lab_def lab_files_def lab_order_def
      mixed_config_example_def initial_world_def
      bindA_def thenA_def liftA_def whenA_def logs_error_def has_key_def dict_get_def
      required_params_def int_params_def filestore_params_def cloud_config_def string_params_def
      check_param_def bindE_def lower_char_def)

subsection \<open>Validation, full names and the archive filter\<close>

text \<open>
  C1. The claim: a configuration that holds one of the legacy keys
  \<^verbatim>\<open>cloud_experiment_bucket\<close>, \<^verbatim>\<open>cloud_web_bucket\<close> is rejected with a
  \<^verbatim>\<open>ValidationError\<close>, even when it is valid otherwise. The code logs the error about
  the renamed keys and, unlike every other branch that logs an error, leaves \<^verbatim>\<open>valid\<close>
  as it is: the cloud configuration of the laboratory with the legacy key
  \<^verbatim>\<open>cloud_experiment_bucket\<close> added is returned as valid, with that one error logged.
\<close>

theorem legacy_key_is_logged_but_accepted:
  "read_and_validate_experiment_config lab ''legacy.yaml'' initial_world
     = (Inr legacy_config_example, initial_world\<lparr>logs := [LegacyBucketKeys]\<rparr>)"
  by (simp add: read_and_validate_experiment_config_def lab_def lab_files_def lab_order_def
      legacy_config_example_def cloud_config_example_def initial_world_def
      bindA_def thenA_def liftA_def whenA_def logs_error_def has_key_def dict_get_def
      required_params_def int_params_def filestore_params_def cloud_config_def string_params_def
      check_param_def bindE_def lower_char_def)

text \<open>
  C3, as stated: one error is logged for every rule that a required parameter violates.
  This fails where one parameter violates two rules: in a local experiment the filestore
  \<^verbatim>\<open>Tmp\<close> is not lowercase and does not start with \<^verbatim>\<open>/\<close>, and the launcher logs the
  first of the two errors only.
\<close>

theorem every_violation_reported_counterexample:
  "logs (snd (read_and_validate_experiment_config lab ''mixed.yaml'' initial_world))
     = [MustBeLowercaseString ''experiment_filestore'' (YStr ''Tmp''),
        LocalPosixOnly ''report_filestore'' (YStr ''gs://reports'')]
   \<and> legacy_report mixed_config_example
       @ concat (map (every_report lab (YBool True) mixed_config_example)
                   (iteration lab (required_params (YBool True))))
     = [MustBeLowercaseString ''experiment_filestore'' (YStr ''Tmp''),
        LocalPosixOnly ''experiment_filestore'' (YStr ''Tmp''),
        LocalPosixOnly ''report_filestore'' (YStr ''gs://reports'')]
   \<and> logs (snd (read_and_validate_experiment_config lab ''mixed.yaml'' initial_world))
     \<noteq> legacy_report mixed_config_example
       @ concat (map (every_report lab (YBool True) mixed_config_example)
                   (iteration lab (required_params (YBool True))))"
proof -
  have "legacy_report mixed_config_example
       @ concat (map (every_report lab (YBool True) mixed_config_example)
                   (iteration lab (required_params (YBool True))))
     = [MustBeLowercaseString ''experiment_filestore'' (YStr ''Tmp''),
        LocalPosixOnly ''experiment_filestore'' (YStr ''Tmp''),
        LocalPosixOnly ''report_filestore'' (YStr ''gs://reports'')]"
    by (simp add: lab_def lab_order_def mixed_config_example_def every_report_def
        violated_rules_def required_params_def int_params_def filestore_params_def
        cloud_config_def string_params_def is_lowercase_string_def has_scheme_def dict_get_def
        lower_char_def legacy_report_def has_key_def)
  then show ?thesis
    by (simp add: mixed_run)
qed

text \<open>
  C3, amended: for every configuration read, the launcher logs one error for every
  required parameter that violates a rule, which is the error of the first rule the
  parameter violates (in the order: missing, not an integer, not a lowercase string,
  wrong scheme; lowercase as \<^verbatim>\<open>str.lower\<close> of the library has it, whatever it does
  to a string); it goes through all required parameters, each once, and after them it
  raises one \<^verbatim>\<open>ValidationError\<close> if and only if some required parameter violates a
  rule, and returns the configuration otherwise.
\<close>

theorem validation_reports:
  assumes "yaml_read x fn = Inr (YDict config)"
    and "le = dict_get config ''local_experiment'' (YBool False)"
    and "enumerates x (required_params le)"
    and "read_and_validate_experiment_config x fn w = (res, w')"
  shows "logs w' = logs w @ legacy_report config
                   @ concat (map (first_report x le config) (iteration x (required_params le)))
         \<and> res = (if \<exists>p \<in> required_params le. violated_rules x le config p \<noteq> []
                  then Inl (ValidationError fn) else Inr config)
         \<and> (\<forall>p \<in> required_params le. violated_rules x le config p \<noteq> [] \<longrightarrow>
               count_list (iteration x (required_params le)) p = 1
               \<and> first_report x le config p
                   = [report le config p (hd (violated_rules x le config p))])"
proof -
  have s: "set (iteration x (required_params le)) = required_params le"
    and d: "distinct (iteration x (required_params le))"
    using assms(3) by (simp_all add: enumerates_def)
  have c: "count_list (iteration x (required_params le)) p = 1" if "p \<in> required_params le" for p
    using that s d by (simp add: count_list_distinct)
  show ?thesis
    using assms(4) read_and_validate_result [OF assms(1,2), of w] s c first_report_hd
    by auto
qed

theorem validation_reports_witness:
  "yaml_read lab ''mixed.yaml'' = Inr (YDict mixed_config_example)
   \<and> enumerates lab (required_params (YBool True))
   \<and> logs (snd (read_and_validate_experiment_config lab ''mixed.yaml'' initial_world))
       = concat (map (first_report lab (YBool True) mixed_config_example)
                   (iteration lab (required_params (YBool True))))
   \<and> fst (read_and_validate_experiment_config lab ''mixed.yaml'' initial_world)
       = Inl (ValidationError ''mixed.yaml'')
   \<and> (\<exists>p \<in> required_params (YBool True).
         violated_rules lab (YBool True) mixed_config_example p \<noteq> [])"
proof -
  have r: "yaml_read lab ''mixed.yaml'' = Inr (YDict mixed_config_example)"
    by (simp add: lab_def lab_files_def)
  have l: "YBool True = dict_get mixed_config_example ''local_experiment'' (YBool False)"
    by (simp add: dict_get_def mixed_config_example_def)
  have g: "legacy_report mixed_config_example = []"
    by (simp add: legacy_report_def has_key_def mixed_config_example_def)
  note t = validation_reports [OF r l lab_enumerates_local mixed_run]
  from t have "\<exists>p \<in> required_params (YBool True).
         violated_rules lab (YBool True) mixed_config_example p \<noteq> []"
    by (auto split: if_splits)
  moreover have i: "logs initial_world = []"
    by (simp add: initial_world_def)
  moreover from t g i
  have "logs (snd (read_and_validate_experiment_config lab ''mixed.yaml'' initial_world))
       = concat (map (first_report lab (YBool True) mixed_config_example)
                   (iteration lab (required_params (YBool True))))"
    by (simp add: mixed_run)
  ultimately show ?thesis
    using r lab_enumerates_local by (simp add: mixed_run)
qed

text \<open>
  C4. A configuration in which a filestore parameter has a value that does not start
  with the scheme of the deployment mode is rejected: with \<^verbatim>\<open>local_experiment\<close> true
  and a value that does not start with \<^verbatim>\<open>/\<close>, or with \<^verbatim>\<open>local_experiment\<close> false or
  absent and a value that does not start with \<^verbatim>\<open>gs://\<close>,
  \<^verbatim>\<open>read_and_validate_experiment_config\<close> raises \<^verbatim>\<open>ValidationError\<close>.
\<close>

theorem wrong_scheme_rejected:
  assumes "yaml_read x fn = Inr (YDict config)"
    and "le = dict_get config ''local_experiment'' (YBool False)"
    and "set (iteration x (required_params le)) = required_params le"
    and "p = ''experiment_filestore'' \<or> p = ''report_filestore''"
    and "map_of config p = Some v"
    and "(truthy le \<and> str_startswith v ''/'' \<noteq> Inr True)
         \<or> (\<not> truthy le \<and> str_startswith v ''gs://'' \<noteq> Inr True)"
  shows "fst (read_and_validate_experiment_config x fn w) = Inl (ValidationError fn)"
proof -
  have f: "p \<in> filestore_params"
    using assms(4) by (auto simp: filestore_params_def)
  have "\<not> has_scheme le v"
    using assms(6) by (cases v) (auto simp: has_scheme_def)
  then have "violates x le config p WrongScheme"
    using f assms(5) by simp
  then have "violated_rules x le config p \<noteq> []"
    by (auto simp: violated_rules_def)
  moreover have "p \<in> set (iteration x (required_params le))"
    using f assms(3) filestore_is_required by simp
  ultimately show ?thesis
    using read_and_validate_result [OF assms(1,2), of w] by auto
qed

theorem wrong_scheme_rejected_witness:
  "yaml_read lab ''mixed.yaml'' = Inr (YDict mixed_config_example)
   \<and> truthy (dict_get mixed_config_example ''local_experiment'' (YBool False))
   \<and> map_of mixed_config_example ''report_filestore'' = Some (YStr ''gs://reports'')
   \<and> str_startswith (YStr ''gs://reports'') ''/'' \<noteq> Inr True
   \<and> fst (read_and_validate_experiment_config lab ''mixed.yaml'' initial_world)
       = Inl (ValidationError ''mixed.yaml'')"
proof -
  have r: "yaml_read lab ''mixed.yaml'' = Inr (YDict mixed_config_example)"
    by (simp add: lab_def lab_files_def)
  have l: "YBool True = dict_get mixed_config_example ''local_experiment'' (YBool False)"
    by (simp add: dict_get_def mixed_config_example_def)
  have e: "set (iteration lab (required_params (YBool True))) = required_params (YBool True)"
    using lab_enumerates_local by (simp add: enumerates_def)
  have m: "map_of mixed_config_example ''report_filestore'' = Some (YStr ''gs://reports'')"
    by (simp add: mixed_config_example_def)
  have s: "(truthy (YBool True) \<and> str_startswith (YStr ''gs://reports'') ''/'' \<noteq> Inr True)
         \<or> (\<not> truthy (YBool True) \<and> str_startswith (YStr ''gs://reports'') ''gs://'' \<noteq> Inr True)"
    by simp
  have "fst (read_and_validate_experiment_config lab ''mixed.yaml'' initial_world)
       = Inl (ValidationError ''mixed.yaml'')"
    by (rule wrong_scheme_rejected [OF r l e _ m s]) simp
  then show ?thesis
    using r m by (simp add: l [symmetric])
qed

text \<open>
  C5. \<^verbatim>\<open>get_full_fuzzer_name\<close> returns the value of the key \<^verbatim>\<open>fuzzer\<close> when there is
  no key \<^verbatim>\<open>name\<close>, and the fuzzer, an underscore and the name when both are strings;
  \<^verbatim>\<open>{"fuzzer": "afl"}\<close> gives \<^verbatim>\<open>afl\<close> and \<^verbatim>\<open>{"fuzzer": "afl", "name": "v2"}\<close> gives
  \<^verbatim>\<open>afl_v2\<close>.
\<close>

theorem get_full_fuzzer_name_spec:
  "(map_of fc ''name'' = None \<and> map_of fc ''fuzzer'' = Some v
      \<longrightarrow> get_full_fuzzer_name fc = Inr v)
   \<and> (map_of fc ''fuzzer'' = Some (YStr f) \<and> map_of fc ''name'' = Some (YStr n)
      \<longrightarrow> get_full_fuzzer_name fc = Inr (YStr (f @ ''_'' @ n)))
   \<and> get_full_fuzzer_name [(''fuzzer'', YStr ''afl'')] = Inr (YStr ''afl'')
   \<and> get_full_fuzzer_name [(''fuzzer'', YStr ''afl''), (''name'', YStr ''v2'')]
       = Inr (YStr ''afl_v2'')"
  by (simp add: get_full_fuzzer_name_def has_key_def subscript_def bindE_def)

theorem get_full_fuzzer_name_spec_witness:
  "map_of [(''fuzzer'', YStr ''honggfuzz'')] ''name'' = None
   \<and> map_of [(''fuzzer'', YStr ''honggfuzz'')] ''fuzzer'' = Some (YStr ''honggfuzz'')
   \<and> get_full_fuzzer_name [(''fuzzer'', YStr ''honggfuzz'')] = Inr (YStr ''honggfuzz'')
   \<and> map_of [(''name'', YStr ''fast''), (''fuzzer'', YStr ''aflplusplus'')] ''fuzzer''
       = Some (YStr ''aflplusplus'')
   \<and> map_of [(''name'', YStr ''fast''), (''fuzzer'', YStr ''aflplusplus'')] ''name''
       = Some (YStr ''fast'')
   \<and> get_full_fuzzer_name [(''name'', YStr ''fast''), (''fuzzer'', YStr ''aflplusplus'')]
       = Inr (YStr ''aflplusplus_fast'')"
  using get_full_fuzzer_name_spec [of "[(''fuzzer'', YStr ''honggfuzz'')]" "YStr ''honggfuzz''"]
        get_full_fuzzer_name_spec [of "[(''name'', YStr ''fast''), (''fuzzer'', YStr ''aflplusplus'')]"
                                      _ "''aflplusplus''" "''fast''"]
  by simp

text \<open>
  C6. The filter of the archive leaves a member out exactly when its path matches
  \<^verbatim>\<open>FILTER_SOURCE_REGEX\<close>, and keeps every other member as it is; every path under one
  of the directories that the denylist names by a leading path is left out; the path
  \<^verbatim>\<open>.git/config\<close> is left out and the path \<^verbatim>\<open>benchmarks/foo/build.sh\<close> is kept.
\<close>

theorem filter_file_denylist:
  "(filter_file ti = None \<longleftrightarrow> re_match FILTER_SOURCE_REGEX (tarinfo_name ti))
   \<and> (\<not> re_match FILTER_SOURCE_REGEX (tarinfo_name ti) \<longrightarrow> filter_file ti = Some ti)
   \<and> (d \<in> set denied_directories \<and> is_prefix d (tarinfo_name ti) \<longrightarrow> filter_file ti = None)
   \<and> filter_file \<lparr>tarinfo_name = ''.git/config''\<rparr> = None
   \<and> filter_file \<lparr>tarinfo_name = ''benchmarks/foo/build.sh''\<rparr>
       = Some \<lparr>tarinfo_name = ''benchmarks/foo/build.sh''\<rparr>"
proof -
  have a: "re_match FILTER_SOURCE_REGEX ''.git/config''"
    by (simp add: re_match_def FILTER_SOURCE_REGEX_def filter_source_alternatives_def)
  have b: "\<not> re_match FILTER_SOURCE_REGEX ''benchmarks/foo/build.sh''"
    by (simp add: re_match_def FILTER_SOURCE_REGEX_def filter_source_alternatives_def
        newline_def)
  show ?thesis
    using a b under_denied_directory [of d "tarinfo_name ti"] by (simp add: filter_file_def)
qed

theorem filter_file_denylist_witness:
  "\<not> re_match FILTER_SOURCE_REGEX ''fuzzers/afl/fuzzer.py''
   \<and> filter_file \<lparr>tarinfo_name = ''fuzzers/afl/fuzzer.py''\<rparr>
       = Some \<lparr>tarinfo_name = ''fuzzers/afl/fuzzer.py''\<rparr>
   \<and> ''docs/'' \<in> set denied_directories \<and> is_prefix ''docs/'' ''docs/index.md''
   \<and> filter_file \<lparr>tarinfo_name = ''docs/index.md''\<rparr> = None"
proof -
  have n: "\<not> re_match FILTER_SOURCE_REGEX ''fuzzers/afl/fuzzer.py''"
    by (simp add: re_match_def FILTER_SOURCE_REGEX_def filter_source_alternatives_def
        newline_def)
  have d: "''docs/'' \<in> set denied_directories"
    by (simp add: denied_directories_def)
  have p: "is_prefix ''docs/'' ''docs/index.md''"
    by simp
  show ?thesis
    using n d p filter_file_denylist [of "\<lparr>tarinfo_name = ''fuzzers/afl/fuzzer.py''\<rparr>"]
      filter_file_denylist [of "\<lparr>tarinfo_name = ''docs/index.md''\<rparr>" "''docs/''"]
    by simp
qed

text \<open>
  C10. A fuzzer configuration whose key \<^verbatim>\<open>name\<close> is present with the empty string as
  its value, and which is valid otherwise (only allowed keys, \<^verbatim>\<open>env\<close> a dictionary if
  present, \<^verbatim>\<open>fuzzer\<close> the name of a fuzzer that passes \<^verbatim>\<open>validate_fuzzer\<close>), passes
  \<^verbatim>\<open>validate_fuzzer_config\<close>, and its full name is the fuzzer followed by an
  underscore.
\<close>

theorem empty_name_validates_and_suffixes:
  assumes "map_of fc ''name'' = Some (YStr [])"
    and "map_of fc ''fuzzer'' = Some (YStr f)"
    and "set (map fst fc) \<subseteq> set allowed_fields"
    and "\<forall>env. map_of fc ''env'' = Some env \<longrightarrow> isinstance_dict env"
    and "validate_fuzzer x (YStr f) = Inr ()"
  shows "validate_fuzzer_config x fc = Inr ()
         \<and> get_full_fuzzer_name fc = Inr (YStr (f @ ''_''))"
proof -
  have "find (\<lambda>key. key \<notin> set allowed_fields) (map fst fc) = None"
    using assms(3) by (auto simp: find_None_iff)
  then show ?thesis
    using assms
    by (auto simp: validate_fuzzer_config_def get_full_fuzzer_name_def has_key_def
        subscript_def bindE_def dict_get_def split: option.splits)
qed

theorem empty_name_validates_and_suffixes_witness:
  "map_of [(''fuzzer'', YStr ''afl''), (''name'', YStr [])] ''name'' = Some (YStr [])
   \<and> validate_fuzzer lab (YStr ''afl'') = Inr ()
   \<and> validate_fuzzer_config lab [(''fuzzer'', YStr ''afl''), (''name'', YStr [])] = Inr ()
   \<and> get_full_fuzzer_name [(''fuzzer'', YStr ''afl''), (''name'', YStr [])]
       = Inr (YStr ''afl_'')"
  using empty_name_validates_and_suffixes
          [of "[(''fuzzer'', YStr ''afl''), (''name'', YStr [])]" "''afl''" lab]
        afl_is_a_fuzzer
  by (simp add: allowed_fields_def)

subsection \<open>Facts about actions and their calls\<close>

lemma bindA_E:
  assumes "bindA m f w = (res, w')"
  obtains e where "m w = (Inl e, w')" and "res = Inl e"
  | v w1 where "m w = (Inr v, w1)" and "f v w1 = (res, w')"
  using assms by (auto simp: bindA_def split: prod.splits sum.splits)

lemma thenA_E:
  assumes "thenA m k w = (res, w')"
  obtains e where "m w = (Inl e, w')" and "res = Inl e"
  | w1 where "m w = (Inr (), w1)" and "k w1 = (res, w')"
  using assms by (auto simp: thenA_def elim!: bindA_E)

lemma liftA_E:
  assumes "liftA r w = (res, w')"
  obtains "res = r" and "w' = w"
  using assms by (simp add: liftA_def)

lemma call_E:
  assumes "call x ev w = (res, w')"
  obtains "res = Inr ()" and "fails x (trace w) ev = None"
      and "w' = w\<lparr>trace := trace w @ [ev]\<rparr>"
  | e where "res = Inl e" and "fails x (trace w) ev = Some e"
      and "w' = w\<lparr>trace := trace w @ [ev]\<rparr>"
  using assms by (auto simp: call_def split: option.splits)

lemma create_file_E:
  assumes "create_file p w = (res, w')"
  obtains "w' = w\<lparr>disk := insert p (disk w)\<rparr>" and "res = Inr ()"
  using assms by (auto simp: create_file_def)

lemma os_remove_E:
  assumes "os_remove x p w = (res, w')"
  obtains "w' = w\<lparr>trace := trace w @ [OsRemove p]\<rparr>" and "res \<noteq> Inr ()"
  | "w' = w\<lparr>trace := trace w @ [OsRemove p], disk := disk w - {p}\<rparr>" and "res = Inr ()"
  using assms
  by (auto simp: os_remove_def elim!: thenA_E call_E split: if_splits)

lemma tar_source_tree_E:
  assumes "tar_source_tree x s w = (res, w')"
  obtains "w' = w\<lparr>trace := trace w @ [TarOpen s]\<rparr>" and "res \<noteq> Inr ()"
  | "w' = w\<lparr>disk := insert s (disk w), trace := trace w @ [TarOpen s, TarAdd s]\<rparr>"
      and "res \<noteq> Inr ()"
  | "w' = w\<lparr>disk := insert s (disk w), trace := trace w @ [TarOpen s, TarAdd s]\<rparr>"
      and "res = Inr ()"
  using assms
  by (auto simp: tar_source_tree_def elim!: thenA_E call_E create_file_E)


lemma whenA_E:
  assumes "whenA c m w = (res, w')"
  obtains "c" and "m w = (res, w')"
  | "\<not> c" and "res = Inr ()" and "w' = w"
  using assms by (auto simp: whenA_def liftA_def split: if_splits)

lemma environ_set_E:
  assumes "environ_set k v w = (res, w')"
  obtains "res \<noteq> Inr ()" and "w' = w"
  | s where "res = Inr ()" and "v = YStr s" and "w' = w\<lparr>environ := AList.update k s (environ w)\<rparr>"
  using assms by (auto simp: environ_set_def split: yaml.splits if_splits)

lemma os_getenv_E:
  assumes "os_getenv k w = (res, w')"
  obtains "res = Inr (map_of (environ w) k)" and "w' = w"
  using assms by (simp add: os_getenv_def prod_eq_iff eq_commute)

lemma environ_subscript_E:
  assumes "environ_subscript k w = (res, w')"
  obtains "w' = w"
  using assms by (auto simp: environ_subscript_def split: option.splits)

lemma get_experiment_filestore_path_E:
  assumes "get_experiment_filestore_path w = (res, w')"
  obtains "w' = w"
  using assms by (auto simp: get_experiment_filestore_path_def split: option.splits)

text \<open>How far a bundling gets, and what it leaves on disk.\<close>

lemma copy_resources_E:
  assumes "copy_resources_to_bucket x config_dir config w = (res, w')"
  obtains "trace w' = trace w" and "disk w' = disk w" and "res \<noteq> Inr ()"
  | base where "trace w' = trace w @ take 1 (bundling_calls config_dir base)"
      and "disk w' = disk w" and "res \<noteq> Inr ()"
  | base where "trace w' = trace w @ take 2 (bundling_calls config_dir base)"
      and "disk w' = insert ''src.tar.gz'' (disk w)" and "res \<noteq> Inr ()"
  | base where "trace w' = trace w @ take 3 (bundling_calls config_dir base)"
      and "disk w' = insert ''src.tar.gz'' (disk w)" and "res \<noteq> Inr ()"
  | base where "trace w' = trace w @ take 4 (bundling_calls config_dir base)"
      and "disk w' = insert ''src.tar.gz'' (disk w)" and "res \<noteq> Inr ()"
  | base where "trace w' = trace w @ bundling_calls config_dir base"
      and "disk w' = disk w - {''src.tar.gz''}"
  using assms
  unfolding copy_resources_to_bucket_def Let_def bundling_calls_def
  by (auto elim!: bindA_E thenA_E liftA_E call_E environ_set_E
      get_experiment_filestore_path_E os_remove_E tar_source_tree_E)

subsection \<open>The archive on disk\<close>

lemma lab_fields:
  "git_diff_output lab = Inr []"
  "git_rev_parse_output lab = Inr ''0a1b2c3d''"
  "fails lab t ev = None"
  "dispatcher_instance_name lab (YStr s) = Inr (''d-'' @ s)"
  "base_docker_tag lab (YStr s) = Inr (''gcr.io/'' @ s)"
  "abspath lab p = p"
  by (simp_all add: lab_def)

lemma lab_without_upload_fields:
  "fails lab_without_upload t (FilestoreCp a b) = Some (External ''cp'')"
  "fails lab_without_upload t (TarOpen a) = None"
  "fails lab_without_upload t (TarAdd a) = None"
  by (simp_all add: lab_without_upload_def upload_fails_def)

lemma upload_fails_run:
  "copy_resources_to_bucket lab_without_upload CONFIG_DIR stamped_config_example initial_world
   = (Inl (External ''cp''),
      \<lparr>environ = [(''EXPERIMENT_FILESTORE'', ''/tmp/experiment-data''), (''EXPERIMENT'', ''exp1'')],
       disk = {''src.tar.gz''}, logs = [],
       trace = [TarOpen ''src.tar.gz'', TarAdd ''src.tar.gz'',
                FilestoreCp ''src.tar.gz'' ''/tmp/experiment-data/exp1/input/'']\<rparr>)"
  by (simp add: copy_resources_to_bucket_def bindA_def thenA_def liftA_def call_def
      subscript_def environ_set_def get_experiment_filestore_path_def tar_source_tree_def
      create_file_def os_remove_def Let_def os_path_join_def CONFIG_DIR_def
      stamped_config_example_def full_config_example_def local_config_example_def
      initial_world_def lab_without_upload_fields)

lemma upload_succeeds_run:
  "copy_resources_to_bucket lab CONFIG_DIR stamped_config_example initial_world
   = (Inr (),
      \<lparr>environ = [(''EXPERIMENT_FILESTORE'', ''/tmp/experiment-data''), (''EXPERIMENT'', ''exp1'')],
       disk = {}, logs = [],
       trace = [TarOpen ''src.tar.gz'', TarAdd ''src.tar.gz'',
                FilestoreCp ''src.tar.gz'' ''/tmp/experiment-data/exp1/input/'',
                OsRemove ''src.tar.gz'',
                FilestoreRsync ''config'' ''/tmp/experiment-data/exp1/input/config'']\<rparr>)"
  by (simp add: copy_resources_to_bucket_def bindA_def thenA_def liftA_def call_def
      subscript_def environ_set_def get_experiment_filestore_path_def tar_source_tree_def
      create_file_def os_remove_def Let_def os_path_join_def CONFIG_DIR_def
      stamped_config_example_def full_config_example_def local_config_example_def
      initial_world_def lab_fields)

text \<open>
  C2, as stated: after \<^verbatim>\<open>copy_resources_to_bucket\<close> the archive \<^verbatim>\<open>src.tar.gz\<close> is not
  on disk, whether the upload succeeds or raises. When the upload raises, the exception
  leaves the function before \<^verbatim>\<open>os.remove\<close>, and the archive stays.
\<close>

theorem archive_left_when_upload_fails_counterexample:
  "fst (copy_resources_to_bucket lab_without_upload CONFIG_DIR stamped_config_example
          initial_world) = Inl (External ''cp'')
   \<and> ''src.tar.gz'' \<in> disk (snd (copy_resources_to_bucket lab_without_upload CONFIG_DIR
                                    stamped_config_example initial_world))"
  by (simp add: upload_fails_run)

text \<open>
  A bundling that has called the upload, where the upload raises: the exception is the
  result of the bundling, no call follows the upload, and the archive is on disk.
\<close>

lemma upload_raised:
  assumes "copy_resources_to_bucket x config_dir config w = (res, w')"
    and "trace w' = trace w @ t @ FilestoreCp a b # rest"
    and "fails x (trace w @ t) (FilestoreCp a b) = Some e"
  shows "res = Inl e \<and> rest = [] \<and> ''src.tar.gz'' \<in> disk w'"
  using assms
  unfolding copy_resources_to_bucket_def Let_def tar_source_tree_def os_remove_def
  by (auto elim!: bindA_E thenA_E liftA_E call_E environ_set_E create_file_E
      get_experiment_filestore_path_E
      simp: Cons_eq_append_conv split: if_splits)

lemma returned_without_archive:
  assumes "copy_resources_to_bucket x config_dir config w = (Inr (), w')"
  shows "''src.tar.gz'' \<notin> disk w'"
  using assms by (cases rule: copy_resources_E) simp_all

text \<open>
  C2, amended: when \<^verbatim>\<open>copy_resources_to_bucket\<close> returns, the archive
  \<^verbatim>\<open>src.tar.gz\<close> is not on disk; when it has called the upload and the upload raises,
  that exception propagates out of \<^verbatim>\<open>copy_resources_to_bucket\<close>, which makes no
  further call, and the archive is still on disk.
\<close>

theorem archive_removed_after_upload:
  assumes "copy_resources_to_bucket x config_dir config w = (res, w')"
  shows "(res = Inr () \<longrightarrow> ''src.tar.gz'' \<notin> disk w')
         \<and> (trace w' = trace w @ t @ FilestoreCp a b # rest
              \<and> fails x (trace w @ t) (FilestoreCp a b) = Some e
              \<longrightarrow> res = Inl e \<and> rest = [] \<and> ''src.tar.gz'' \<in> disk w')"
  using assms upload_raised [of x config_dir config w res w' t a b rest e]
    returned_without_archive [of x config_dir config w w']
  by auto

theorem archive_removed_after_upload_witness:
  "fst (copy_resources_to_bucket lab CONFIG_DIR stamped_config_example initial_world) = Inr ()
   \<and> ''src.tar.gz'' \<notin> disk (snd (copy_resources_to_bucket lab CONFIG_DIR
                                      stamped_config_example initial_world))
   \<and> trace (snd (copy_resources_to_bucket lab_without_upload CONFIG_DIR
                    stamped_config_example initial_world))
       = trace initial_world @ [TarOpen ''src.tar.gz'', TarAdd ''src.tar.gz'']
         @ FilestoreCp ''src.tar.gz'' ''/tmp/experiment-data/exp1/input/'' # []
   \<and> fails lab_without_upload
         (trace initial_world @ [TarOpen ''src.tar.gz'', TarAdd ''src.tar.gz''])
         (FilestoreCp ''src.tar.gz'' ''/tmp/experiment-data/exp1/input/'')
       = Some (External ''cp'')
   \<and> fst (copy_resources_to_bucket lab_without_upload CONFIG_DIR stamped_config_example
            initial_world) = Inl (External ''cp'')
   \<and> ''src.tar.gz'' \<in> disk (snd (copy_resources_to_bucket lab_without_upload CONFIG_DIR
                                    stamped_config_example initial_world))"
proof -
  have i: "trace initial_world = []"
    by (simp add: initial_world_def)
  have t: "trace (snd (copy_resources_to_bucket lab_without_upload CONFIG_DIR
                    stamped_config_example initial_world))
       = trace initial_world @ [TarOpen ''src.tar.gz'', TarAdd ''src.tar.gz'']
         @ FilestoreCp ''src.tar.gz'' ''/tmp/experiment-data/exp1/input/'' # []"
    by (simp add: upload_fails_run i)
  have f: "fails lab_without_upload
         (trace initial_world @ [TarOpen ''src.tar.gz'', TarAdd ''src.tar.gz''])
         (FilestoreCp ''src.tar.gz'' ''/tmp/experiment-data/exp1/input/'')
       = Some (External ''cp'')"
    by (simp add: lab_without_upload_fields)
  have s: "fst (copy_resources_to_bucket lab CONFIG_DIR stamped_config_example initial_world)
             = Inr ()"
    by (simp add: upload_succeeds_run)
  note ok = archive_removed_after_upload [OF surjective_pairing,
      of lab CONFIG_DIR stamped_config_example initial_world]
  note ko = archive_removed_after_upload [OF surjective_pairing,
      where x = lab_without_upload and config_dir = CONFIG_DIR
        and config = stamped_config_example and w = initial_world
        and t = "[TarOpen ''src.tar.gz'', TarAdd ''src.tar.gz'']"
        and a = "''src.tar.gz''" and b = "''/tmp/experiment-data/exp1/input/''"
        and rest = "[]" and e = "External ''cp''"]
  from ok s have "''src.tar.gz'' \<notin> disk (snd (copy_resources_to_bucket lab CONFIG_DIR
                                      stamped_config_example initial_world))"
    by simp
  moreover from ko t f
  have "fst (copy_resources_to_bucket lab_without_upload CONFIG_DIR stamped_config_example
            initial_world) = Inl (External ''cp'')
        \<and> ''src.tar.gz'' \<in> disk (snd (copy_resources_to_bucket lab_without_upload CONFIG_DIR
                                    stamped_config_example initial_world))"
    by simp
  ultimately show ?thesis
    using s t f by simp
qed

subsection \<open>The dispatcher factory\<close>

text \<open>
  C7, as stated: for every configuration \<^verbatim>\<open>get_dispatcher\<close> returns the local
  dispatcher when \<^verbatim>\<open>local_experiment\<close> is true. The constructors read
  \<^verbatim>\<open>config['experiment']\<close>: on the configuration \<^verbatim>\<open>{"local_experiment": true}\<close>
  the factory raises \<^verbatim>\<open>KeyError\<close> and returns no dispatcher.
\<close>

theorem dispatcher_without_experiment_counterexample:
  "get_dispatcher lab [(''local_experiment'', YBool True)] = Inl (KeyError ''experiment'')"
  by (simp add: get_dispatcher_def init_dispatcher_def dict_get_def subscript_def bindE_def)

text \<open>
  C7, amended: for every configuration that has the key \<^verbatim>\<open>experiment\<close>, and whose
  instance name \<^verbatim>\<open>experiment_utils\<close> can derive, \<^verbatim>\<open>get_dispatcher\<close> returns the
  \<^verbatim>\<open>LocalDispatcher\<close> when the value of \<^verbatim>\<open>local_experiment\<close> is true (or any other
  value that Python takes for true) and the \<^verbatim>\<open>GoogleCloudDispatcher\<close> when the key is
  absent (or its value is taken for false); without the key \<^verbatim>\<open>experiment\<close> it raises
  \<^verbatim>\<open>KeyError\<close>; and a dispatcher that it returns is never of another class.
\<close>

theorem get_dispatcher_variants:
  "(map_of config ''experiment'' = Some e \<and> dispatcher_instance_name x e = Inr n \<longrightarrow>
      get_dispatcher x config
        = Inr \<lparr>self_class = (if truthy (dict_get config ''local_experiment'' YNone)
                              then LocalDispatcher else GoogleCloudDispatcher),
               self_config = config, self_instance_name = n, self_process = None\<rparr>)
   \<and> (map_of config ''experiment'' = Some e \<and> dispatcher_instance_name x e = Inr n
        \<and> map_of config ''local_experiment'' = Some (YBool True) \<longrightarrow>
          (\<exists>d. get_dispatcher x config = Inr d \<and> self_class d = LocalDispatcher))
   \<and> (map_of config ''experiment'' = Some e \<and> dispatcher_instance_name x e = Inr n
        \<and> map_of config ''local_experiment'' = None \<longrightarrow>
          (\<exists>d. get_dispatcher x config = Inr d \<and> self_class d = GoogleCloudDispatcher))
   \<and> (map_of config ''experiment'' = None \<longrightarrow>
          get_dispatcher x config = Inl (KeyError ''experiment''))
   \<and> (get_dispatcher x config = Inr d \<longrightarrow>
          self_class d = LocalDispatcher \<or> self_class d = GoogleCloudDispatcher)"
  by (auto simp: get_dispatcher_def init_dispatcher_def dict_get_def subscript_def bindE_def
      split: option.splits sum.splits)

theorem get_dispatcher_variants_witness:
  "map_of stamped_config_example ''experiment'' = Some (YStr ''exp1'')
   \<and> dispatcher_instance_name lab (YStr ''exp1'') = Inr ''d-exp1''
   \<and> map_of stamped_config_example ''local_experiment'' = Some (YBool True)
   \<and> get_dispatcher lab stamped_config_example
       = Inr \<lparr>self_class = LocalDispatcher, self_config = stamped_config_example,
              self_instance_name = ''d-exp1'', self_process = None\<rparr>
   \<and> map_of [(''experiment'', YStr ''exp1'')] ''local_experiment'' = None
   \<and> (\<exists>d. get_dispatcher lab [(''experiment'', YStr ''exp1'')] = Inr d
          \<and> self_class d = GoogleCloudDispatcher)
   \<and> map_of [(''local_experiment'', YBool True)] ''experiment'' = None
   \<and> get_dispatcher lab [(''local_experiment'', YBool True)] = Inl (KeyError ''experiment'')"
proof -
  have a: "map_of stamped_config_example ''experiment'' = Some (YStr ''exp1'')"
    and b: "map_of stamped_config_example ''local_experiment'' = Some (YBool True)"
    and c: "dict_get stamped_config_example ''local_experiment'' YNone = YBool True"
    by (simp_all add: stamped_config_example_def full_config_example_def
        local_config_example_def dict_get_def)
  have n: "dispatcher_instance_name lab (YStr ''exp1'') = Inr ''d-exp1''"
    by (simp add: lab_fields)
  show ?thesis
    using a b c n
      get_dispatcher_variants [of stamped_config_example "YStr ''exp1''" lab "''d-exp1''"]
      get_dispatcher_variants [of "[(''experiment'', YStr ''exp1'')]" "YStr ''exp1''" lab "''d-exp1''"]
      get_dispatcher_variants [of "[(''local_experiment'', YBool True)]" _ lab]
    by (simp add: dict_get_def)
qed

subsection \<open>The key that validation does not ask for\<close>

lemma validated_filestore_is_string:
  assumes "yaml_read x fn = Inr (YDict config)"
    and "le = dict_get config ''local_experiment'' (YBool False)"
    and "set (iteration x (required_params le)) = required_params le"
    and "fst (read_and_validate_experiment_config x fn w0) = Inr config"
  shows "\<exists>s. map_of config ''experiment_filestore'' = Some (YStr s)"
proof -
  have "violated_rules x le config ''experiment_filestore'' = []"
    using assms(3,4) read_and_validate_result [OF assms(1,2), of w0]
      filestore_is_required [of "''experiment_filestore''" le]
    by (auto simp: filestore_params_def split: if_splits)
  then have "\<not> violates x le config ''experiment_filestore'' Missing"
    and "\<not> violates x le config ''experiment_filestore'' NotLowercaseString"
    by (auto simp: violated_rules_def split: if_splits)
  then show ?thesis
    by (auto simp: string_params_def filestore_params_def is_lowercase_string_def
        split: option.splits yaml.splits)
qed

lemma local_start_needs_project:
  assumes "local_start x d w = (res, w')"
    and "map_of (self_config d) ''cloud_project'' = None"
  shows "res \<noteq> Inr ()"
  using assms
  unfolding local_start_def Let_def
  by (auto elim!: bindA_E thenA_E liftA_E call_E simp: subscript_def bindE_def)

lemma local_start_key_error:
  assumes "map_of (self_config d) ''cloud_project'' = None"
    and "map_of (self_config d) ''experiment_filestore'' = Some (YStr s)"
    and "fails x (trace w) (CreateDirectory (abspath x s)) = None"
  shows "fst (local_start x d w) = Inl (KeyError ''cloud_project'')"
  using assms
  by (simp add: local_start_def Let_def bindA_def thenA_def liftA_def call_def subscript_def
      bindE_def os_path_abspath_def)

lemma switch_project_key_error:
  assumes "map_of config ''cloud_project'' = None"
    and "\<not> truthy (dict_get config ''local_experiment'' (YBool False))"
  shows "fst (switch_project x config w) \<noteq> Inr ()"
    and "map_of (environ w) ''POSTGRES_PASSWORD'' \<noteq> None \<Longrightarrow>
           switch_project x config w = (Inl (KeyError ''cloud_project''), w)"
  using assms
  by (auto simp: switch_project_def Let_def whenA_def bindA_def liftA_def os_getenv_def
      subscript_def)

lemma local_valid:
  "read_and_validate_experiment_config lab ''local.yaml'' w = (Inr local_config_example, w)"
  by (simp add: read_and_validate_experiment_config_def lab_def lab_files_def lab_order_def
      local_config_example_def full_config_example_def
      bindA_def thenA_def liftA_def whenA_def logs_error_def has_key_def dict_get_def
      required_params_def int_params_def filestore_params_def cloud_config_def string_params_def
      check_param_def bindE_def lower_char_def)

lemma cloud_valid:
  "read_and_validate_experiment_config lab ''cloud.yaml'' w = (Inr cloud_config_example, w)"
  by (simp add: read_and_validate_experiment_config_def lab_def lab_files_def lab_order_def
      cloud_config_example_def
      bindA_def thenA_def liftA_def whenA_def logs_error_def has_key_def dict_get_def
      required_params_def int_params_def filestore_params_def cloud_config_def string_params_def
      check_param_def bindE_def lower_char_def)

text \<open>
  C9. Validation never asks for \<^verbatim>\<open>cloud_project\<close>: the local configuration of the
  laboratory passes it without that key. For every configuration that passes the
  validation and lacks the key, stamped by the launcher with benchmarks, experiment and
  git hash: when it is local, \<^verbatim>\<open>LocalDispatcher.start\<close> on a dispatcher that holds
  it never returns, and raises \<^verbatim>\<open>KeyError\<close> for \<^verbatim>\<open>cloud_project\<close> as soon as the
  filestore directory has been created; when it is not local, the project switch of
  \<^verbatim>\<open>start_experiment\<close> never returns, and raises that \<^verbatim>\<open>KeyError\<close> once
  \<^verbatim>\<open>POSTGRES_PASSWORD\<close> is found in the environment.
\<close>

theorem cloud_project_read_but_not_required:
  assumes "yaml_read x fn = Inr (YDict config)"
    and "le = dict_get config ''local_experiment'' (YBool False)"
    and "set (iteration x (required_params le)) = required_params le"
    and "fst (read_and_validate_experiment_config x fn w0) = Inr config"
    and "map_of config ''cloud_project'' = None"
    and "stamped = AList.update ''git_hash'' (YStr h)
                     (AList.update ''experiment'' (YStr name)
                        (AList.update ''benchmarks'' (YStr b) config))"
  shows "fst (read_and_validate_experiment_config lab ''local.yaml'' initial_world)
           = Inr local_config_example
         \<and> truthy (dict_get local_config_example ''local_experiment'' (YBool False))
         \<and> map_of local_config_example ''cloud_project'' = None
         \<and> ''cloud_project'' \<notin> required_params le
         \<and> (truthy le \<and> self_config d = stamped \<longrightarrow>
               fst (local_start x d w) \<noteq> Inr ()
               \<and> (\<exists>s. map_of stamped ''experiment_filestore'' = Some (YStr s)
                      \<and> (fails x (trace w) (CreateDirectory (abspath x s)) = None \<longrightarrow>
                            fst (local_start x d w) = Inl (KeyError ''cloud_project''))))
         \<and> (\<not> truthy le \<longrightarrow>
               fst (switch_project x stamped w) \<noteq> Inr ()
               \<and> (map_of (environ w) ''POSTGRES_PASSWORD'' \<noteq> None \<longrightarrow>
                     switch_project x stamped w = (Inl (KeyError ''cloud_project''), w)))"
proof -
  obtain s where s: "map_of config ''experiment_filestore'' = Some (YStr s)"
    using validated_filestore_is_string [OF assms(1-4)] by blast
  have p: "map_of stamped ''cloud_project'' = None"
    and f: "map_of stamped ''experiment_filestore'' = Some (YStr s)"
    and l: "dict_get stamped ''local_experiment'' (YBool False) = le"
    using assms(5) s by (simp_all add: assms(2,6) update_conv' dict_get_def)
  have a: "fst (read_and_validate_experiment_config lab ''local.yaml'' initial_world)
           = Inr local_config_example"
    by (simp add: local_valid)
  have b: "truthy (dict_get local_config_example ''local_experiment'' (YBool False))"
    and c: "map_of local_config_example ''cloud_project'' = None"
    by (simp_all add: dict_get_def local_config_example_def)
  have r: "''cloud_project'' \<notin> required_params le"
    by (simp add: required_params_def int_params_def filestore_params_def cloud_config_def)
  have ls: "fst (local_start x d w) \<noteq> Inr ()" if "self_config d = stamped"
    using local_start_needs_project [of x d w "fst (local_start x d w)" "snd (local_start x d w)"]
      p that by simp
  have lk: "fst (local_start x d w) = Inl (KeyError ''cloud_project'')"
    if "self_config d = stamped" and "fails x (trace w) (CreateDirectory (abspath x s)) = None"
    using local_start_key_error [of d s x w] p f that by simp
  have sp: "fst (switch_project x stamped w) \<noteq> Inr ()" if "\<not> truthy le"
    using switch_project_key_error(1) [of stamped x w] p l that by simp
  have sk: "switch_project x stamped w = (Inl (KeyError ''cloud_project''), w)"
    if "\<not> truthy le" and "map_of (environ w) ''POSTGRES_PASSWORD'' \<noteq> None"
    using switch_project_key_error(2) [of stamped w x] p l that by simp
  show ?thesis
    using a b c r ls lk sp sk f by auto
qed


lemma lab_enumerates_cloud: "enumerates lab (required_params (YBool False))"
  by (auto simp: enumerates_def lab_def lab_order_def required_params_def int_params_def
      filestore_params_def cloud_config_def)

theorem cloud_project_read_but_not_required_witness:
  "yaml_read lab ''local.yaml'' = Inr (YDict local_config_example)
   \<and> fst (read_and_validate_experiment_config lab ''local.yaml'' initial_world)
       = Inr local_config_example
   \<and> truthy (dict_get local_config_example ''local_experiment'' (YBool False))
   \<and> map_of local_config_example ''cloud_project'' = None
   \<and> fails lab (trace initial_world) (CreateDirectory (abspath lab ''/tmp/experiment-data''))
       = None
   \<and> fst (local_start lab
            \<lparr>self_class = LocalDispatcher,
             self_config = AList.update ''git_hash'' (YStr ''0a1b2c3d'')
                             (AList.update ''experiment'' (YStr ''exp1'')
                                (AList.update ''benchmarks'' (YStr ''libpng,zlib'')
                                   local_config_example)),
             self_instance_name = ''d-exp1'', self_process = None\<rparr>
            initial_world) = Inl (KeyError ''cloud_project'')
   \<and> yaml_read lab ''cloud.yaml'' = Inr (YDict cloud_config_example)
   \<and> fst (read_and_validate_experiment_config lab ''cloud.yaml'' initial_world)
       = Inr cloud_config_example
   \<and> \<not> truthy (dict_get cloud_config_example ''local_experiment'' (YBool False))
   \<and> map_of cloud_config_example ''cloud_project'' = None
   \<and> switch_project lab
         (AList.update ''git_hash'' (YStr ''0a1b2c3d'')
            (AList.update ''experiment'' (YStr ''exp1'')
               (AList.update ''benchmarks'' (YStr ''libpng,zlib'') cloud_config_example)))
         (initial_world\<lparr>environ := [(''POSTGRES_PASSWORD'', ''secret'')]\<rparr>)
       = (Inl (KeyError ''cloud_project''),
          initial_world\<lparr>environ := [(''POSTGRES_PASSWORD'', ''secret'')]\<rparr>)"
proof -
  have rl: "yaml_read lab ''local.yaml'' = Inr (YDict local_config_example)"
    and rc: "yaml_read lab ''cloud.yaml'' = Inr (YDict cloud_config_example)"
    by (simp_all add: lab_def lab_files_def)
  have ll: "YBool True = dict_get local_config_example ''local_experiment'' (YBool False)"
    and lc: "YBool False = dict_get cloud_config_example ''local_experiment'' (YBool False)"
    by (simp_all add: dict_get_def local_config_example_def cloud_config_example_def)
  have el: "set (iteration lab (required_params (YBool True))) = required_params (YBool True)"
    and ec: "set (iteration lab (required_params (YBool False))) = required_params (YBool False)"
    using lab_enumerates_local lab_enumerates_cloud by (simp_all add: enumerates_def)
  have vl: "fst (read_and_validate_experiment_config lab ''local.yaml'' initial_world)
       = Inr local_config_example"
    and vc: "fst (read_and_validate_experiment_config lab ''cloud.yaml'' initial_world)
       = Inr cloud_config_example"
    by (simp_all add: local_valid cloud_valid)
  have pl: "map_of local_config_example ''cloud_project'' = None"
    and pc: "map_of cloud_config_example ''cloud_project'' = None"
    and fl: "map_of local_config_example ''experiment_filestore''
               = Some (YStr ''/tmp/experiment-data'')"
    by (simp_all add: local_config_example_def cloud_config_example_def)
  have cd: "fails lab (trace initial_world)
              (CreateDirectory (abspath lab ''/tmp/experiment-data'')) = None"
    and pw: "map_of (environ (initial_world\<lparr>environ := [(''POSTGRES_PASSWORD'', ''secret'')]\<rparr>))
               ''POSTGRES_PASSWORD'' \<noteq> None"
    by (simp_all add: lab_fields)
  note tl = cloud_project_read_but_not_required
      [where d = "\<lparr>self_class = LocalDispatcher,
             self_config = AList.update ''git_hash'' (YStr ''0a1b2c3d'')
                             (AList.update ''experiment'' (YStr ''exp1'')
                                (AList.update ''benchmarks'' (YStr ''libpng,zlib'')
                                   local_config_example)),
             self_instance_name = ''d-exp1'', self_process = None\<rparr>"
         and h = "''0a1b2c3d''" and name = "''exp1''" and b = "''libpng,zlib''"
         and w = initial_world, OF rl ll el vl pl refl]
  note tc = cloud_project_read_but_not_required
      [where h = "''0a1b2c3d''" and name = "''exp1''" and b = "''libpng,zlib''"
         and w = "initial_world\<lparr>environ := [(''POSTGRES_PASSWORD'', ''secret'')]\<rparr>",
       OF rc lc ec vc pc refl]
  have "fst (local_start lab
            \<lparr>self_class = LocalDispatcher,
             self_config = AList.update ''git_hash'' (YStr ''0a1b2c3d'')
                             (AList.update ''experiment'' (YStr ''exp1'')
                                (AList.update ''benchmarks'' (YStr ''libpng,zlib'')
                                   local_config_example)),
             self_instance_name = ''d-exp1'', self_process = None\<rparr>
            initial_world) = Inl (KeyError ''cloud_project'')"
    using tl fl cd by (auto simp: update_conv')
  moreover have "switch_project lab
         (AList.update ''git_hash'' (YStr ''0a1b2c3d'')
            (AList.update ''experiment'' (YStr ''exp1'')
               (AList.update ''benchmarks'' (YStr ''libpng,zlib'') cloud_config_example)))
         (initial_world\<lparr>environ := [(''POSTGRES_PASSWORD'', ''secret'')]\<rparr>)
       = (Inl (KeyError ''cloud_project''),
          initial_world\<lparr>environ := [(''POSTGRES_PASSWORD'', ''secret'')]\<rparr>)"
    using tc pw by simp
  ultimately show ?thesis
    using rl rc vl vc pl pc cd by (simp add: ll [symmetric] lc [symmetric])
qed

subsection \<open>The calls of a launch, phase by phase\<close>

lemma returned_append:
  "returned x before (t1 @ t2) \<longleftrightarrow> returned x before t1 \<and> returned x (before @ t1) t2"
  by (induction t1 arbitrary: before) auto

lemma set_up_experiment_config_file_calls:
  assumes "set_up_experiment_config_file x config w = (res, w')"
  shows "\<exists>t. trace w' = trace w @ t \<and> (\<forall>ev \<in> set t. quiet ev)
           \<and> (res = Inr () \<longrightarrow>
                 returned x (trace w) t
                 \<and> WriteYaml (os_path_join CONFIG_DIR ''experiment.yaml'') (YDict config)
                     \<in> set t)"
  using assms unfolding set_up_experiment_config_file_def
  by (auto elim!: thenA_E call_E simp: quiet_def)

lemma for_fuzzer_configs_calls:
  assumes "for_fuzzer_configs x dir fcs w = (res, w')"
  shows "\<exists>t. trace w' = trace w @ t \<and> (\<forall>ev \<in> set t. is_config_write ev)
           \<and> (res = Inr () \<longrightarrow>
                 returned x (trace w) t
                 \<and> (\<forall>fc \<in> set fcs. \<exists>path. WriteYaml path (YDict fc) \<in> set t))"
  using assms
proof (induction fcs arbitrary: w)
  case Nil
  then show ?case by (auto elim!: liftA_E)
next
  case (Cons fc fcs)
  from Cons.prems show ?case
    unfolding for_fuzzer_configs.simps
  proof (cases rule: thenA_E)
    case (1 e)
    then show ?thesis by (auto elim!: liftA_E)
  next
    case v: (2 w1)
    then have w1: "w1 = w" by (auto elim!: liftA_E)
    from v(2) show ?thesis
    proof (cases rule: bindA_E)
      case (1 e)
      then show ?thesis by (auto elim!: liftA_E simp: w1)
    next
      case n: (2 cfile w2)
      then have w2: "w2 = w" by (auto elim!: liftA_E simp: w1)
      from n(2) show ?thesis
      proof (cases rule: thenA_E)
        case (1 e)
        then show ?thesis by (auto elim!: call_E simp: w2)
      next
        case c: (2 w3)
        then have w3: "trace w3 = trace w @ [WriteYaml cfile (YDict fc)]"
          and f: "fails x (trace w) (WriteYaml cfile (YDict fc)) = None"
          by (auto elim!: call_E simp: w2)
        obtain t where t: "trace w' = trace w3 @ t" "\<forall>ev \<in> set t. is_config_write ev"
          "res = Inr () \<longrightarrow>
             returned x (trace w3) t
             \<and> (\<forall>fc \<in> set fcs. \<exists>path. WriteYaml path (YDict fc) \<in> set t)"
          using Cons.IH [OF c(2)] by blast
        show ?thesis
        proof (intro exI [of _ "WriteYaml cfile (YDict fc) # t"] conjI)
          show "trace w' = trace w @ WriteYaml cfile (YDict fc) # t"
            using t(1) w3 by simp
          show "\<forall>ev \<in> set (WriteYaml cfile (YDict fc) # t). is_config_write ev"
            using t(2) by simp
          show "res = Inr () \<longrightarrow>
                  returned x (trace w) (WriteYaml cfile (YDict fc) # t)
                  \<and> (\<forall>fc' \<in> set (fc # fcs). \<exists>path. WriteYaml path (YDict fc')
                        \<in> set (WriteYaml cfile (YDict fc) # t))"
            using t(3) f w3 by auto
        qed
      qed
    qed
  qed
qed

lemma config_write_quiet: "is_config_write ev \<Longrightarrow> quiet ev"
  by (cases ev) (simp_all add: quiet_def)

lemma set_up_fuzzer_config_files_calls:
  assumes "set_up_fuzzer_config_files x fcs w = (res, w')"
  shows "\<exists>t. trace w' = trace w @ t \<and> (\<forall>ev \<in> set t. quiet ev)
           \<and> (res = Inr () \<longrightarrow>
                 returned x (trace w) t
                 \<and> (\<forall>fc \<in> set fcs. \<exists>path. WriteYaml path (YDict fc) \<in> set t))"
proof (cases "fcs = []")
  case True
  with assms show ?thesis
    by (auto simp: set_up_fuzzer_config_files_def elim!: liftA_E)
next
  case False
  with assms have "thenA (call x (RecreateDirectory (os_path_join CONFIG_DIR ''fuzzer-configs'')))
           (for_fuzzer_configs x (os_path_join CONFIG_DIR ''fuzzer-configs'') fcs) w = (res, w')"
    by (simp add: set_up_fuzzer_config_files_def Let_def)
  then show ?thesis
  proof (cases rule: thenA_E)
    case (1 e)
    then show ?thesis by (auto elim!: call_E simp: quiet_def)
  next
    case (2 w1)
    then have w1: "trace w1 = trace w @ [RecreateDirectory (os_path_join CONFIG_DIR ''fuzzer-configs'')]"
      and f: "fails x (trace w) (RecreateDirectory (os_path_join CONFIG_DIR ''fuzzer-configs''))
                = None"
      by (auto elim!: call_E)
    obtain t where t: "trace w' = trace w1 @ t" "\<forall>ev \<in> set t. is_config_write ev"
      "res = Inr () \<longrightarrow>
         returned x (trace w1) t
         \<and> (\<forall>fc \<in> set fcs. \<exists>path. WriteYaml path (YDict fc) \<in> set t)"
      using for_fuzzer_configs_calls [OF 2(2)] by blast
    show ?thesis
    proof (intro exI [of _ "RecreateDirectory (os_path_join CONFIG_DIR ''fuzzer-configs'') # t"] conjI)
      show "trace w' = trace w @ RecreateDirectory (os_path_join CONFIG_DIR ''fuzzer-configs'') # t"
        using t(1) w1 by simp
      show "\<forall>ev \<in> set (RecreateDirectory (os_path_join CONFIG_DIR ''fuzzer-configs'') # t). quiet ev"
        using t(2) config_write_quiet by (auto simp: quiet_def)
      show "res = Inr () \<longrightarrow>
              returned x (trace w)
                (RecreateDirectory (os_path_join CONFIG_DIR ''fuzzer-configs'') # t)
              \<and> (\<forall>fc \<in> set fcs. \<exists>path. WriteYaml path (YDict fc)
                    \<in> set (RecreateDirectory (os_path_join CONFIG_DIR ''fuzzer-configs'') # t))"
        using t(3) f w1 by auto
    qed
  qed
qed

lemma switch_project_calls:
  assumes "switch_project x config w = (res, w')"
  shows "\<exists>t. trace w' = trace w @ t \<and> (\<forall>ev \<in> set t. quiet ev)
           \<and> (res = Inr () \<longrightarrow> returned x (trace w) t)"
  using assms unfolding switch_project_def Let_def
  by (auto elim!: whenA_E bindA_E liftA_E call_E os_getenv_E simp: quiet_def split: if_splits)

lemma create_async_calls:
  assumes "create_async x d w = (res, w')"
  shows "\<exists>t. trace w' = trace w @ t \<and> (\<forall>ev \<in> set t. quiet ev)
           \<and> ((\<exists>d'. res = Inr d') \<longrightarrow> returned x (trace w) t)"
  using assms unfolding create_async_def
  by (cases "self_class d") (auto elim!: thenA_E liftA_E call_E simp: quiet_def)

text \<open>A bundling that returns has made its five calls, and each of them returned.\<close>

lemma copy_resources_returned:
  assumes "copy_resources_to_bucket x config_dir config w = (Inr (), w')"
  obtains base where "trace w' = trace w @ bundling_calls config_dir base"
    and "returned x (trace w) (bundling_calls config_dir base)"
  using assms
  unfolding copy_resources_to_bucket_def Let_def tar_source_tree_def os_remove_def
    bundling_calls_def
  by (auto elim!: bindA_E thenA_E liftA_E call_E environ_set_E create_file_E
      get_experiment_filestore_path_E split: if_splits)

lemma copy_resources_calls:
  assumes "copy_resources_to_bucket x config_dir config w = (res, w')"
  shows "\<exists>t. trace w' = trace w @ t \<and> (\<forall>ev \<in> set t. is_bundling ev)
           \<and> (res = Inr () \<longrightarrow>
                 returned x (trace w) t \<and> (\<exists>base. t = bundling_calls config_dir base))"
proof (cases "res = Inr ()")
  case True
  with assms have "copy_resources_to_bucket x config_dir config w = (Inr (), w')"
    by simp
  then obtain base where b: "trace w' = trace w @ bundling_calls config_dir base"
    "returned x (trace w) (bundling_calls config_dir base)"
    by (rule copy_resources_returned)
  have "\<forall>ev \<in> set (bundling_calls config_dir base). is_bundling ev"
    by (simp add: bundling_calls_def)
  with b show ?thesis
    by blast
next
  case False
  from assms have "\<exists>t. trace w' = trace w @ t \<and> (\<forall>ev \<in> set t. is_bundling ev)"
  proof (cases rule: copy_resources_E)
    case 1
    then show ?thesis by simp
  next
    case (2 base)
    then show ?thesis by (simp add: bundling_calls_def)
  next
    case (3 base)
    then show ?thesis by (simp add: bundling_calls_def)
  next
    case (4 base)
    then show ?thesis by (simp add: bundling_calls_def)
  next
    case (5 base)
    then show ?thesis by (simp add: bundling_calls_def)
  next
    case (6 base)
    then show ?thesis by (simp add: bundling_calls_def)
  qed
  with False show ?thesis
    by blast
qed

lemma local_start_calls:
  assumes "local_start x d w = (res, w')"
  shows "\<exists>t. trace w' = trace w @ t \<and> (\<forall>ev \<in> set t. is_start ev)"
  using assms unfolding local_start_def Let_def
  by (auto elim!: bindA_E thenA_E liftA_E call_E)

lemma process_join_E:
  assumes "process_join x d w = (res, w')"
  obtains "w' = w"
  | "w' = w\<lparr>trace := trace w @ [ProcessJoin]\<rparr>"
  using assms
  by (cases "self_process d") (auto simp: process_join_def elim!: liftA_E call_E)

lemma cloud_start_calls:
  assumes "cloud_start x d w = (res, w')"
  shows "\<exists>t. trace w' = trace w @ t \<and> (\<forall>ev \<in> set t. is_start ev)"
  using assms unfolding cloud_start_def Let_def
  by (auto elim!: bindA_E thenA_E liftA_E call_E process_join_E environ_subscript_E)

lemma dispatcher_start_calls:
  assumes "dispatcher_start x d w = (res, w')"
  shows "\<exists>t. trace w' = trace w @ t \<and> (\<forall>ev \<in> set t. is_start ev)"
  using assms local_start_calls [of x d w res w'] cloud_start_calls [of x d w res w']
  by (cases "self_class d") (auto simp: dispatcher_start_def elim!: liftA_E)

lemma read_and_validate_trace:
  assumes "read_and_validate_experiment_config x fn w = (res, w')"
  shows "trace w' = trace w"
proof (cases "yaml_read x fn")
  case (Inl e)
  with assms show ?thesis
    by (simp add: read_and_validate_experiment_config_def bindA_def liftA_def)
next
  case (Inr document)
  show ?thesis
  proof (cases document)
    case (YDict config)
    with Inr assms show ?thesis
      using read_and_validate_result [of x fn config _ w] by auto
  qed (use Inr assms in
      \<open>simp_all add: read_and_validate_experiment_config_def bindA_def liftA_def\<close>)
qed

lemma check_no_local_changes_E:
  assumes "check_no_local_changes x w = (res, w')"
  obtains "w' = w"
  using assms unfolding check_no_local_changes_def
  by (auto elim!: bindA_E liftA_E split: if_splits)

lemma start_dispatcher_calls:
  assumes "start_dispatcher x config config_dir w = (res, w')"
  shows "\<exists>pre bun post. trace w' = trace w @ pre @ bun @ post
           \<and> (\<forall>ev \<in> set pre. quiet ev) \<and> (\<forall>ev \<in> set bun. is_bundling ev)
           \<and> (\<forall>ev \<in> set post. is_start ev)
           \<and> (bun \<noteq> [] \<longrightarrow> returned x (trace w) pre)
           \<and> (post \<noteq> [] \<longrightarrow>
                 returned x (trace w @ pre) bun
                 \<and> (\<exists>base. bun = bundling_calls config_dir base))"
  using assms unfolding start_dispatcher_def
proof (cases rule: bindA_E)
  case (1 e)
  then have "trace w' = trace w" by (auto elim!: liftA_E)
  then show ?thesis by simp
next
  case g: (2 dispatcher w1)
  then have w1: "w1 = w" by (auto elim!: liftA_E)
  from g(2) show ?thesis
  proof (cases rule: bindA_E)
    case (1 e)
    then have "trace w' = trace w" by (auto elim!: os_getenv_E simp: w1)
    then show ?thesis by simp
  next
    case m: (2 manual_experiment w2)
    then have w2: "w2 = w" by (auto elim!: os_getenv_E simp: w1)
    from m(2) show ?thesis
    proof (cases rule: bindA_E)
      case (1 e)
      then obtain pre where "trace w' = trace w @ pre" "\<forall>ev \<in> set pre. quiet ev"
        using create_async_calls [of x dispatcher w2 "Inl e" w']
        by (auto simp: w2 elim!: liftA_E split: if_splits)
      then show ?thesis
        by - (rule exI [of _ pre], rule exI [of _ "[]"], rule exI [of _ "[]"], simp)
    next
      case a: (2 dispatcher' w3)
      then obtain pre where pre: "trace w3 = trace w @ pre" "\<forall>ev \<in> set pre. quiet ev"
        "returned x (trace w) pre"
        using create_async_calls [of x dispatcher w2 "Inr dispatcher'" w3]
        by (auto simp: w2 elim!: liftA_E split: if_splits)
      from a(2) show ?thesis
      proof (cases rule: thenA_E)
        case (1 e)
        then obtain bun where "trace w' = trace w3 @ bun" "\<forall>ev \<in> set bun. is_bundling ev"
          using copy_resources_calls by blast
        with pre show ?thesis
          by - (rule exI [of _ pre], rule exI [of _ bun], rule exI [of _ "[]"], simp)
      next
        case b: (2 w4)
        then obtain bun base where bun: "trace w4 = trace w3 @ bun"
          "\<forall>ev \<in> set bun. is_bundling ev" "bun = bundling_calls config_dir base"
          "returned x (trace w3) bun"
          using copy_resources_calls [OF b(1)] by auto
        from b(2) obtain post where "trace w' = trace w4 @ post" "\<forall>ev \<in> set post. is_start ev"
          using dispatcher_start_calls [of x dispatcher' w4 res w']
          by (cases rule: whenA_E) auto
        with pre bun show ?thesis
          by - (rule exI [of _ pre], rule exI [of _ bun], rule exI [of _ post], auto)
      qed
    qed
  qed
qed

lemma quiet_launch:
  assumes "trace w' = trace w @ t" and "\<forall>ev \<in> set t. quiet ev"
  shows "\<exists>pre bun post.
           trace w' = trace w @ pre @ bun @ post
         \<and> (\<forall>ev \<in> set pre. \<not> is_bundling ev \<and> \<not> is_start ev)
         \<and> (\<forall>ev \<in> set bun. is_bundling ev \<and> \<not> is_config_write ev)
         \<and> (\<forall>ev \<in> set post. is_start ev \<and> \<not> is_config_write ev)
         \<and> (bun \<noteq> [] \<longrightarrow>
               returned x (trace w) pre
               \<and> (\<exists>config. WriteYaml (os_path_join CONFIG_DIR ''experiment.yaml'') (YDict config)
                              \<in> set pre)
               \<and> (\<forall>fc \<in> set fuzzer_configs. \<exists>path. WriteYaml path (YDict fc) \<in> set pre))
         \<and> (post \<noteq> [] \<longrightarrow>
               returned x (trace w @ pre) bun
               \<and> (\<exists>base. bun = bundling_calls CONFIG_DIR base))"
  using assms
  by - (rule exI [of _ t], rule exI [of _ "[]"], rule exI [of _ "[]"], simp add: quiet_def)

lemma bundling_not_write: "is_bundling ev \<Longrightarrow> \<not> is_config_write ev"
  by (cases ev) simp_all

lemma start_not_write: "is_start ev \<Longrightarrow> \<not> is_config_write ev"
  by (cases ev) simp_all

text \<open>
  C8. In every launch, whether it returns or raises, the calls made are in three
  consecutive parts: first calls that belong neither to the bundling nor to a
  dispatcher's start, then calls of the bundling, then calls of the dispatcher's start,
  and no configuration file is written in the last two parts. When the bundling has
  made a call, every call before it has returned, and among these calls are the write
  of the experiment configuration file and the write of the configuration file of
  every fuzzer; when the dispatcher's start has made a call, the bundling before it has
  made its five calls and each of them has returned.
\<close>

theorem launch_order:
  assumes "start_experiment x experiment_name config_filename benchmarks fuzzer_configs w
             = (res, w')"
  shows "\<exists>pre bun post.
           trace w' = trace w @ pre @ bun @ post
         \<and> (\<forall>ev \<in> set pre. \<not> is_bundling ev \<and> \<not> is_start ev)
         \<and> (\<forall>ev \<in> set bun. is_bundling ev \<and> \<not> is_config_write ev)
         \<and> (\<forall>ev \<in> set post. is_start ev \<and> \<not> is_config_write ev)
         \<and> (bun \<noteq> [] \<longrightarrow>
               returned x (trace w) pre
               \<and> (\<exists>config. WriteYaml (os_path_join CONFIG_DIR ''experiment.yaml'') (YDict config)
                              \<in> set pre)
               \<and> (\<forall>fc \<in> set fuzzer_configs. \<exists>path. WriteYaml path (YDict fc) \<in> set pre))
         \<and> (post \<noteq> [] \<longrightarrow>
               returned x (trace w @ pre) bun
               \<and> (\<exists>base. bun = bundling_calls CONFIG_DIR base))"
  using assms unfolding start_experiment_def Let_def
proof (cases rule: thenA_E)
  case (1 e)
  then have "trace w' = trace w @ []" by (auto elim!: check_no_local_changes_E)
  then show ?thesis by (rule quiet_launch) simp
next
  case s1: (2 w1)
  then have w1: "w1 = w" by (auto elim!: check_no_local_changes_E)
  from s1(2) show ?thesis
  proof (cases rule: thenA_E)
    case (1 e)
    then have "trace w' = trace w @ []" by (auto elim!: liftA_E simp: w1)
    then show ?thesis by (rule quiet_launch) simp
  next
    case s2: (2 w2)
    then have w2: "w2 = w" by (auto elim!: liftA_E simp: w1)
    from s2(2) show ?thesis
    proof (cases rule: thenA_E)
      case (1 e)
      then have "trace w' = trace w @ []" by (auto elim!: liftA_E simp: w2)
      then show ?thesis by (rule quiet_launch) simp
    next
      case s3: (2 w3)
      then have w3: "w3 = w" by (auto elim!: liftA_E simp: w2)
      from s3(2) show ?thesis
      proof (cases rule: bindA_E)
        case (1 e)
        then have "trace w' = trace w @ []"
          using read_and_validate_trace [of x config_filename w3 "Inl e" w'] by (simp add: w3)
        then show ?thesis by (rule quiet_launch) simp
      next
        case s4: (2 config0 w4)
        then have w4: "trace w4 = trace w"
          using read_and_validate_trace [of x config_filename w3 "Inr config0" w4]
          by (simp add: w3)
        from s4(2) show ?thesis
        proof (cases rule: bindA_E)
          case (1 e)
          then have "trace w' = trace w @ []"
            by (auto elim!: liftA_E simp: w4 get_git_hash_def)
          then show ?thesis by (rule quiet_launch) simp
        next
          case s5: (2 hash w5)
          then have w5: "trace w5 = trace w"
            by (auto elim!: liftA_E simp: w4 get_git_hash_def)
          from s5(2) show ?thesis
          proof (cases rule: thenA_E)
            case (1 e)
            then obtain t where "trace w' = trace w5 @ t" "\<forall>ev \<in> set t. quiet ev"
              using set_up_experiment_config_file_calls by blast
            then have "trace w' = trace w @ t" and "\<forall>ev \<in> set t. quiet ev"
              by (simp_all add: w5)
            then show ?thesis by (rule quiet_launch)
          next
            case s6: (2 w6)
            then obtain t1 config where t1: "trace w6 = trace w @ t1" "\<forall>ev \<in> set t1. quiet ev"
              "WriteYaml (os_path_join CONFIG_DIR ''experiment.yaml'') (YDict config) \<in> set t1"
              "returned x (trace w) t1"
              using set_up_experiment_config_file_calls [OF s6(1)] by (auto simp: w5)
            from s6(2) show ?thesis
            proof (cases rule: thenA_E)
              case (1 e)
              then obtain t where "trace w' = trace w6 @ t" "\<forall>ev \<in> set t. quiet ev"
                using set_up_fuzzer_config_files_calls by blast
              then have "trace w' = trace w @ (t1 @ t)" and "\<forall>ev \<in> set (t1 @ t). quiet ev"
                using t1 by auto
              then show ?thesis by (rule quiet_launch)
            next
              case s7: (2 w7)
              then obtain t2 where t2: "trace w7 = trace w6 @ t2" "\<forall>ev \<in> set t2. quiet ev"
                "\<forall>fc \<in> set fuzzer_configs. \<exists>path. WriteYaml path (YDict fc) \<in> set t2"
                "returned x (trace w6) t2"
                using set_up_fuzzer_config_files_calls [OF s7(1)] by auto
              from s7(2) show ?thesis
              proof (cases rule: thenA_E)
                case (1 e)
                then obtain t where "trace w' = trace w7 @ t" "\<forall>ev \<in> set t. quiet ev"
                  using switch_project_calls by blast
                then have "trace w' = trace w @ (t1 @ t2 @ t)"
                  and "\<forall>ev \<in> set (t1 @ t2 @ t). quiet ev"
                  using t1 t2 by auto
                then show ?thesis by (rule quiet_launch)
              next
                case s8: (2 w8)
                then obtain t3 where t3: "trace w8 = trace w7 @ t3" "\<forall>ev \<in> set t3. quiet ev"
                  "returned x (trace w7) t3"
                  using switch_project_calls [OF s8(1)] by auto
                obtain pre bun post where d: "trace w' = trace w8 @ pre @ bun @ post"
                  "\<forall>ev \<in> set pre. quiet ev" "\<forall>ev \<in> set bun. is_bundling ev"
                  "\<forall>ev \<in> set post. is_start ev"
                  "post \<noteq> [] \<longrightarrow> (\<exists>base. bun = bundling_calls CONFIG_DIR base)"
                  "bun \<noteq> [] \<longrightarrow> returned x (trace w8) pre"
                  "post \<noteq> [] \<longrightarrow> returned x (trace w8 @ pre) bun"
                  using start_dispatcher_calls [OF s8(2)] by blast
                have w8: "trace w8 = trace w @ t1 @ t2 @ t3"
                  using t3(1) t2(1) t1(1) by simp
                show ?thesis
                proof (rule exI [of _ "t1 @ t2 @ t3 @ pre"], rule exI [of _ bun], rule exI [of _ post],
                    intro conjI)
                  show "trace w' = trace w @ (t1 @ t2 @ t3 @ pre) @ bun @ post"
                    using d(1) t3(1) t2(1) t1(1) by simp
                  show "\<forall>ev \<in> set (t1 @ t2 @ t3 @ pre). \<not> is_bundling ev \<and> \<not> is_start ev"
                    using t1(2) t2(2) t3(2) d(2) by (auto simp: quiet_def)
                  show "\<forall>ev \<in> set bun. is_bundling ev \<and> \<not> is_config_write ev"
                    using d(3) bundling_not_write by blast
                  show "\<forall>ev \<in> set post. is_start ev \<and> \<not> is_config_write ev"
                    using d(4) start_not_write by blast
                  have r: "returned x (trace w) (t1 @ t2 @ t3)"
                    using t1(4) t2(4) t3(3) t1(1) t2(1) by (simp add: returned_append)
                  show "bun \<noteq> [] \<longrightarrow>
                     returned x (trace w) (t1 @ t2 @ t3 @ pre)
                     \<and> (\<exists>config. WriteYaml (os_path_join CONFIG_DIR ''experiment.yaml'')
                                  (YDict config) \<in> set (t1 @ t2 @ t3 @ pre))
                     \<and> (\<forall>fc \<in> set fuzzer_configs.
                           \<exists>path. WriteYaml path (YDict fc) \<in> set (t1 @ t2 @ t3 @ pre))"
                    using t1(3) t2(3) r d(6) w8 returned_append [of x "trace w" "t1 @ t2 @ t3" pre]
                    by auto
                  show "post \<noteq> [] \<longrightarrow>
                     returned x (trace w @ t1 @ t2 @ t3 @ pre) bun
                     \<and> (\<exists>base. bun = bundling_calls CONFIG_DIR base)"
                    using d(5) d(7) w8 by simp
                qed
              qed
            qed
          qed
        qed
      qed
    qed
  qed
qed

lemma exp1_is_a_name: "validate_experiment_name ''exp1'' = Inr ()"
  by code_simp

lemma benchmarks_are_distinct: "validate_benchmarks lab [''libpng'', ''zlib''] = Inr ()"
  by (simp add: validate_benchmarks_def lab_def lab_order_def)

lemma afl_config_is_valid: "validate_fuzzer_config lab [(''fuzzer'', YStr ''afl'')] = Inr ()"
  by (simp add: validate_fuzzer_config_def has_key_def allowed_fields_def dict_get_def bindE_def
      afl_is_a_fuzzer)

lemma full_valid:
  "read_and_validate_experiment_config lab ''full.yaml'' w = (Inr full_config_example, w)"
  by (simp add: read_and_validate_experiment_config_def lab_def lab_files_def lab_order_def
      local_config_example_def full_config_example_def
      bindA_def thenA_def liftA_def whenA_def logs_error_def has_key_def dict_get_def
      required_params_def int_params_def filestore_params_def cloud_config_def string_params_def
      check_param_def bindE_def lower_char_def)

lemma full_run:
  "start_experiment lab ''exp1'' ''full.yaml'' [''libpng'', ''zlib'']
     [[(''fuzzer'', YStr ''afl'')]] initial_world
   = (Inr (), launched_world)"
  by (simp add: start_experiment_def check_no_local_changes_def exp1_is_a_name
      benchmarks_are_distinct full_valid
      get_git_hash_def set_up_experiment_config_file_def set_up_fuzzer_config_files_def
      afl_config_is_valid switch_project_def start_dispatcher_def get_dispatcher_def
      init_dispatcher_def
      create_async_def copy_resources_to_bucket_def dispatcher_start_def local_start_def
      bindA_def thenA_def liftA_def whenA_def bindE_def call_def subscript_def dict_get_def
      os_getenv_def environ_set_def get_experiment_filestore_path_def tar_source_tree_def
      create_file_def os_remove_def os_path_abspath_def falsy_env_def Let_def
      get_full_fuzzer_name_def has_key_def CONFIG_DIR_def os_path_join_def
      full_config_example_def local_config_example_def stamped_config_example_def
      initial_world_def launched_world_def lab_fields)

theorem launch_order_witness:
  "\<exists>pre bun post.
     trace (snd (start_experiment lab ''exp1'' ''full.yaml'' [''libpng'', ''zlib'']
                   [[(''fuzzer'', YStr ''afl'')]] initial_world))
       = trace initial_world @ pre @ bun @ post
     \<and> bun \<noteq> [] \<and> post \<noteq> []
     \<and> (\<exists>config. WriteYaml (os_path_join CONFIG_DIR ''experiment.yaml'') (YDict config)
                    \<in> set pre)
     \<and> (\<exists>path. WriteYaml path (YDict [(''fuzzer'', YStr ''afl'')]) \<in> set pre)
     \<and> (\<exists>base. bun = bundling_calls CONFIG_DIR base)
     \<and> returned lab (trace initial_world) pre
     \<and> returned lab (trace initial_world @ pre) bun"
proof -
  obtain pre bun post where o:
    "trace launched_world = trace initial_world @ pre @ bun @ post"
    "\<forall>ev \<in> set pre. \<not> is_bundling ev \<and> \<not> is_start ev"
    "\<forall>ev \<in> set bun. is_bundling ev \<and> \<not> is_config_write ev"
    "\<forall>ev \<in> set post. is_start ev \<and> \<not> is_config_write ev"
    "bun \<noteq> [] \<longrightarrow>
       returned lab (trace initial_world) pre
       \<and> (\<exists>config. WriteYaml (os_path_join CONFIG_DIR ''experiment.yaml'') (YDict config)
                    \<in> set pre)
       \<and> (\<forall>fc \<in> set [[(''fuzzer'', YStr ''afl'')]]. \<exists>path. WriteYaml path (YDict fc) \<in> set pre)"
    "post \<noteq> [] \<longrightarrow>
       returned lab (trace initial_world @ pre) bun
       \<and> (\<exists>base. bun = bundling_calls CONFIG_DIR base)"
    using launch_order [OF full_run] by blast
  have i: "trace initial_world = []"
    by (simp add: initial_world_def)
  have "TarOpen ''src.tar.gz'' \<in> set (trace launched_world)"
    and "CreateDirectory ''/tmp/experiment-data'' \<in> set (trace launched_world)"
    by (simp_all add: launched_world_def)
  then have "TarOpen ''src.tar.gz'' \<in> set pre \<union> set bun \<union> set post"
    and "CreateDirectory ''/tmp/experiment-data'' \<in> set pre \<union> set bun \<union> set post"
    unfolding o(1) i by simp_all
  then have "TarOpen ''src.tar.gz'' \<in> set bun"
    and "CreateDirectory ''/tmp/experiment-data'' \<in> set post"
    using o(2,3,4) by fastforce+
  then have "bun \<noteq> []" and "post \<noteq> []"
    by auto
  with o show ?thesis
    unfolding full_run snd_conv
    by - (rule exI [of _ pre], rule exI [of _ bun], rule exI [of _ post], simp)
qed

end
